theory Spec2Isabelle
  imports Main
begin

section \<open>Tokens, locations and the schema AST\<close>

text \<open>
  A token is \<open>{kind, text, loc}\<close>; the field \<open>text\<close> is \<open>token_text\<close> here, and the
  fields \<open>start\<close> and \<open>end\<close> of a location are \<open>loc_start\<close> and \<open>loc_end\<close>.
  \<open>SyntaxKind\<close> is a union of string literals in the source (\<open>'DatabaseKeyword'\<close>,
  \<open>'Identifier'\<close>, \<open>'EOF'\<close>, ...), so a kind is a string here and the parser compares
  it with string literals, as the source does. A location is a pair of offsets.
\<close>

record text_location =
  loc_start :: nat
  loc_end :: nat

record token =
  kind :: string
  token_text :: string
  loc :: text_location

definition createTextLocation :: "nat \<Rightarrow> nat \<Rightarrow> text_location" where
  "createTextLocation s e = \<lparr>loc_start = s, loc_end = e\<rparr>"

text \<open>
  The AST nodes built by the factory functions of the parser. Each constructor takes the
  arguments of the factory call that builds the node.
\<close>

datatype identifier_node = Identifier string text_location

datatype string_literal = StringLiteral string text_location

datatype annotation = Annotation identifier_node "string_literal list" text_location

datatype type_node =
    KeywordFieldType string text_location
  | TypeReferenceNode identifier_node "type_node list" text_location
  | StringLiteralNode string text_location
  | IntegerLiteral string text_location
  | FloatLiteral string text_location
  | BooleanLiteral bool text_location

datatype field_definition =
  FieldDefinition identifier_node "annotation list" type_node text_location

datatype table_definition =
  TableDefinition identifier_node "field_definition list" "annotation list" text_location

datatype database_definition =
  DatabaseDefinition identifier_node "table_definition list" text_location

datatype type_definition =
  TypeDefinition identifier_node "type_node list" text_location

datatype definition_node =
    DatabaseDef database_definition
  | TypeDef type_definition

datatype database_schema = DatabaseSchema "definition_node list"

section \<open>Errors and the parser's control flow\<close>

text \<open>
  \<open>ParseError\<close> is the class the parser throws through \<open>reportError\<close>; \<open>TypeError\<close> is
  what JavaScript raises when a property of \<open>undefined\<close> is read (a token read past the
  end of the array); \<open>Error\<close> is the plain error thrown by the renderer.
\<close>

datatype error =
    ParseError string text_location
  | TypeError
  | Error string

text \<open>
  The parser keeps one mutable cursor, \<open>currentIndex\<close>. A parsing function of the model
  takes the cursor and gives back an outcome: the value with the new cursor, a thrown
  error, or \<open>OutOfFuel\<close> when the loop budget is used up. Each iteration of a
  \<open>while\<close> loop and each call in the recursion of type nodes uses one unit of fuel; a run
  that is \<open>OutOfFuel\<close> for every amount of fuel does not return.
\<close>

datatype 'a outcome =
    OutOfFuel
  | Throw error
  | Return 'a nat

definition andThen :: "'a outcome \<Rightarrow> ('a \<Rightarrow> nat \<Rightarrow> 'b outcome) \<Rightarrow> 'b outcome" where
  "andThen m f = (case m of OutOfFuel \<Rightarrow> OutOfFuel | Throw e \<Rightarrow> Throw e | Return a i \<Rightarrow> f a i)"

section \<open>The cursor primitives\<close>

definition isStartOfDefinition :: "token \<Rightarrow> bool" where
  "isStartOfDefinition t =
     (kind t = ''DatabaseKeyword'' \<or> kind t = ''TableKeyword'' \<or> kind t = ''TypeKeyword'')"

text \<open>\<open>tokens[currentIndex]\<close>: \<open>None\<close> is JavaScript's \<open>undefined\<close>.\<close>

definition currentToken :: "token list \<Rightarrow> nat \<Rightarrow> token option" where
  "currentToken tokens i = (if i < length tokens then Some (tokens ! i) else None)"

definition previousToken :: "token list \<Rightarrow> nat \<Rightarrow> token option" where
  "previousToken tokens i =
     (if 0 < i \<and> i - 1 < length tokens then Some (tokens ! (i - 1)) else None)"

definition isAtEnd :: "token list \<Rightarrow> nat \<Rightarrow> bool" where
  "isAtEnd tokens i =
     (i \<ge> length tokens \<or>
      (case currentToken tokens i of None \<Rightarrow> False | Some t \<Rightarrow> kind t = ''EOF''))"

fun check :: "token list \<Rightarrow> string list \<Rightarrow> nat \<Rightarrow> bool outcome" where
  "check tokens [] i = Return False i"
| "check tokens (ty # types) i =
     (case currentToken tokens i of
        None \<Rightarrow> Throw TypeError
      | Some t \<Rightarrow> if ty = kind t then Return True i else check tokens types i)"

definition advance :: "token list \<Rightarrow> nat \<Rightarrow> token option outcome" where
  "advance tokens i =
     (let i' = (if \<not> isAtEnd tokens i then i + 1 else i)
      in Return (previousToken tokens i') i')"

fun consume :: "token list \<Rightarrow> string list \<Rightarrow> nat \<Rightarrow> token option outcome" where
  "consume tokens [] i = Return None i"
| "consume tokens (ty # types) i =
     andThen (check tokens [ty] i) (\<lambda>found i.
       if found then advance tokens i else consume tokens types i)"

text \<open>
  \<open>reportError\<close> builds the \<open>ParseError\<close> that its caller throws; building it reads
  \<open>currentToken().loc\<close>, which itself raises when the cursor is past the end.
\<close>

definition reportError :: "token list \<Rightarrow> string \<Rightarrow> nat \<Rightarrow> error" where
  "reportError tokens msg i =
     (case currentToken tokens i of
        None \<Rightarrow> TypeError
      | Some t \<Rightarrow> ParseError msg (loc t))"

definition requireValue :: "token list \<Rightarrow> 'a option \<Rightarrow> string \<Rightarrow> nat \<Rightarrow> 'a outcome" where
  "requireValue tokens val msg i =
     (case val of
        None \<Rightarrow> Throw (reportError tokens msg i)
      | Some v \<Rightarrow> Return v i)"

definition readListSeparator :: "token list \<Rightarrow> nat \<Rightarrow> token option outcome" where
  "readListSeparator tokens i =
     andThen (check tokens [''CommaToken''] i) (\<lambda>found i.
       if found then advance tokens i else Return None i)"

text \<open>
  A function of the parser that is a single \<open>while\<close> loop filling an array
  (\<open>parseTypeNodes\<close>, \<open>parseAnnotations\<close>, \<open>parseFields\<close>, \<open>parseTableDefinitions\<close>)
  takes the array built so far as an argument; its callers pass the empty array. Where
  other statements surround the loop, the loop is a function of its own, named with
  \<open>_loop\<close> (and \<open>parseTypeArgs\<close> for the loop of \<open>parseTypeReferenceNode\<close>). A function
  without a loop hands its fuel on to the functions it calls.
\<close>

section \<open>Type nodes\<close>

fun parseTypeNode :: "nat \<Rightarrow> token list \<Rightarrow> nat \<Rightarrow> type_node outcome"
  and parseTypeReferenceNode :: "nat \<Rightarrow> token list \<Rightarrow> nat \<Rightarrow> type_node outcome"
  and parseTypeArgs :: "nat \<Rightarrow> token list \<Rightarrow> type_node list \<Rightarrow> nat \<Rightarrow> type_node list outcome"
where
  "parseTypeNode 0 tokens i = OutOfFuel"
| "parseTypeNode (Suc n) tokens i =
     (case currentToken tokens i of
        None \<Rightarrow> Throw TypeError
      | Some typeToken \<Rightarrow>
          if kind typeToken = ''Identifier'' then parseTypeReferenceNode n tokens i
          else if kind typeToken = ''BooleanKeyword'' \<or> kind typeToken = ''StringKeyword''
                  \<or> kind typeToken = ''NumberKeyword'' then
            andThen (advance tokens i) (\<lambda>_ i.
              Return (KeywordFieldType (kind typeToken) (loc typeToken)) i)
          else if kind typeToken = ''StringLiteral'' then
            andThen (advance tokens i) (\<lambda>_ i.
              Return (StringLiteralNode (token_text typeToken) (loc typeToken)) i)
          else if kind typeToken = ''IntegerLiteral'' then
            andThen (advance tokens i) (\<lambda>_ i.
              Return (IntegerLiteral (token_text typeToken) (loc typeToken)) i)
          else if kind typeToken = ''FloatLiteral'' then
            andThen (advance tokens i) (\<lambda>_ i.
              Return (FloatLiteral (token_text typeToken) (loc typeToken)) i)
          else if kind typeToken = ''TrueKeyword'' then
            andThen (advance tokens i) (\<lambda>_ i.
              Return (BooleanLiteral True (loc typeToken)) i)
          else if kind typeToken = ''FalseKeyword'' then
            andThen (advance tokens i) (\<lambda>_ i.
              Return (BooleanLiteral False (loc typeToken)) i)
          else Throw (reportError tokens
                 (''TypeNode expected but found: '' @ kind typeToken) i))"
| "parseTypeReferenceNode 0 tokens i = OutOfFuel"
| "parseTypeReferenceNode (Suc n) tokens i =
     andThen (consume tokens [''Identifier''] i) (\<lambda>nameToken0 i.
     andThen (requireValue tokens nameToken0 ''Unable to find identifier for field'' i)
       (\<lambda>nameToken i.
     andThen (consume tokens [''LessThanToken''] i) (\<lambda>openBracket i.
       case openBracket of
         None \<Rightarrow>
           Return (TypeReferenceNode (Identifier (token_text nameToken) (loc nameToken)) []
                     \<lparr>loc_start = loc_start (loc nameToken),
                      loc_end = loc_end (loc nameToken)\<rparr>) i
       | Some _ \<Rightarrow>
           andThen (parseTypeArgs n tokens [] i) (\<lambda>typeArgs i.
           andThen (consume tokens [''GreaterThanToken''] i) (\<lambda>closeBracket0 i.
           andThen (requireValue tokens closeBracket0
                      ''Map needs to defined contained types'' i) (\<lambda>closeBracket i.
             Return (TypeReferenceNode (Identifier (token_text nameToken) (loc nameToken)) typeArgs
                       \<lparr>loc_start = loc_start (loc nameToken),
                        loc_end = loc_end (loc closeBracket)\<rparr>) i))))))"
| "parseTypeArgs 0 tokens typeArgs i = OutOfFuel"
| "parseTypeArgs (Suc n) tokens typeArgs i =
     andThen (check tokens [''GreaterThanToken''] i) (\<lambda>closed i.
       if closed then Return typeArgs i
       else
         andThen (parseTypeNode n tokens i) (\<lambda>typeArg i.
         andThen (check tokens [''GreaterThanToken''] i) (\<lambda>found i.
           if found then
             andThen (consume tokens [''GreaterThanToken''] i) (\<lambda>commaToken i.
             andThen (requireValue tokens commaToken
                        ''Type variables must be separated by a comma'' i) (\<lambda>_ i.
               parseTypeArgs n tokens (typeArgs @ [typeArg]) i))
           else parseTypeArgs n tokens (typeArgs @ [typeArg]) i)))"

section \<open>Type definitions, annotations and fields\<close>

fun parseTypeNodes :: "nat \<Rightarrow> token list \<Rightarrow> type_node list \<Rightarrow> nat \<Rightarrow> type_node list outcome" where
  "parseTypeNodes 0 tokens typeNodes i = OutOfFuel"
| "parseTypeNodes (Suc n) tokens typeNodes i =
     andThen (check tokens [''SemicolonToken''] i) (\<lambda>closed i.
       if closed then Return typeNodes i
       else
         andThen (parseTypeNode n tokens i) (\<lambda>typeNode i.
         andThen (consume tokens [''PipeToken''] i) (\<lambda>_ i.
           case currentToken tokens i of
             None \<Rightarrow> Throw TypeError
           | Some t \<Rightarrow>
               if isStartOfDefinition t then
                 Throw (reportError tokens
                   ''Closing semicolon expected, but new statement found'' i)
               else
                 andThen (check tokens [''EOF''] i) (\<lambda>eof i.
                   if eof then
                     Throw (reportError tokens
                       ''Closing semicolon expected but reached end of file'' i)
                   else parseTypeNodes n tokens (typeNodes @ [typeNode]) i))))"

definition parseTypeDefinition :: "nat \<Rightarrow> token list \<Rightarrow> nat \<Rightarrow> type_definition outcome" where
  "parseTypeDefinition n tokens i =
     andThen (consume tokens [''TypeKeyword''] i) (\<lambda>keywordToken0 i.
     andThen (requireValue tokens keywordToken0 ''Unable to find type keyword for type'' i)
       (\<lambda>keywordToken i.
     andThen (consume tokens [''Identifier''] i) (\<lambda>nameToken0 i.
     andThen (requireValue tokens nameToken0 ''Unable to find identifier for type'' i)
       (\<lambda>nameToken i.
     andThen (consume tokens [''EqualToken''] i) (\<lambda>equalToken i.
     andThen (requireValue tokens equalToken
                (''Expected '' @ [CHR 0x27, CHR ''='', CHR 0x27]) i)
       (\<lambda>_ i.
     andThen (parseTypeNodes n tokens [] i) (\<lambda>body i.
     andThen (consume tokens [''SemicolonToken''] i) (\<lambda>semicolon0 i.
     andThen (requireValue tokens semicolon0 ''Field definition should end with semicolon'' i)
       (\<lambda>semicolon i.
       Return (TypeDefinition (Identifier (token_text nameToken) (loc nameToken)) body
                 (createTextLocation (loc_start (loc keywordToken))
                    (loc_end (loc semicolon)))) i)))))))))"

text \<open>
  The list of annotation arguments. One turn of the loop reads an optional comma and an
  optional string literal, then looks for a new definition or the end of the file.
\<close>

fun parseAnnotationArgs_loop ::
  "nat \<Rightarrow> token list \<Rightarrow> string_literal list \<Rightarrow> nat \<Rightarrow> string_literal list outcome" where
  "parseAnnotationArgs_loop 0 tokens args i = OutOfFuel"
| "parseAnnotationArgs_loop (Suc n) tokens args i =
     andThen (check tokens [''RightParenToken''] i) (\<lambda>closed i.
       if closed then Return args i
       else
         andThen (readListSeparator tokens i) (\<lambda>_ i.
         andThen (consume tokens [''StringLiteral''] i) (\<lambda>arg i.
           let args' = (case arg of
                          None \<Rightarrow> args
                        | Some a \<Rightarrow> args @ [StringLiteral (token_text a) (loc a)])
           in case currentToken tokens i of
                None \<Rightarrow> Throw TypeError
              | Some t \<Rightarrow>
                  if isStartOfDefinition t then
                    Throw (reportError tokens
                      (''Closing paren '' @ [CHR 0x27, CHR '')'', CHR 0x27]
                         @ '' expected, but new definition found'') i)
                  else
                    andThen (check tokens [''EOF''] i) (\<lambda>eof i.
                      if eof then
                        Throw (reportError tokens
                          (''Closing paren '' @ [CHR 0x27, CHR '')'', CHR 0x27]
                             @ '' expected but reached end of file'') i)
                      else parseAnnotationArgs_loop n tokens args' i))))"

definition parseAnnotationArgs :: "nat \<Rightarrow> token list \<Rightarrow> nat \<Rightarrow> string_literal list outcome" where
  "parseAnnotationArgs n tokens i =
     andThen (consume tokens [''LeftParenToken''] i) (\<lambda>openParen i.
       case openParen of
         None \<Rightarrow> Return [] i
       | Some _ \<Rightarrow>
           andThen (parseAnnotationArgs_loop n tokens [] i) (\<lambda>args i.
           andThen (consume tokens [''RightParenToken''] i) (\<lambda>_ i.
             Return args i)))"

text \<open>
  \<open>parseAnnotation\<close> is typed \<open>Annotation | null\<close> in the source, but every path that
  returns gives the node, so the test \<open>if (annotation)\<close> of its caller always holds.
\<close>

definition parseAnnotation :: "nat \<Rightarrow> token list \<Rightarrow> nat \<Rightarrow> annotation outcome" where
  "parseAnnotation n tokens i =
     andThen (consume tokens [''AtToken''] i) (\<lambda>atToken0 i.
     andThen (requireValue tokens atToken0 ''Unable to find identifier for field'' i)
       (\<lambda>atToken i.
     andThen (consume tokens [''Identifier''] i) (\<lambda>nameToken0 i.
     andThen (requireValue tokens nameToken0 ''Annotation must have a name'' i)
       (\<lambda>nameToken i.
     andThen (parseAnnotationArgs n tokens i) (\<lambda>args i.
       Return (Annotation (Identifier (token_text nameToken) (loc nameToken)) args
                 (createTextLocation (loc_start (loc atToken))
                    (loc_end (loc nameToken)))) i)))))"

fun parseAnnotations ::
  "nat \<Rightarrow> token list \<Rightarrow> annotation list \<Rightarrow> nat \<Rightarrow> annotation list outcome" where
  "parseAnnotations 0 tokens annotations i = OutOfFuel"
| "parseAnnotations (Suc n) tokens annotations i =
     andThen (check tokens [''AtToken''] i) (\<lambda>found i.
       if found then
         andThen (parseAnnotation n tokens i) (\<lambda>annotation i.
           parseAnnotations n tokens (annotations @ [annotation]) i)
       else Return annotations i)"

definition parseField :: "nat \<Rightarrow> token list \<Rightarrow> nat \<Rightarrow> field_definition outcome" where
  "parseField n tokens i =
     (case currentToken tokens i of
        None \<Rightarrow> Throw TypeError
      | Some startToken \<Rightarrow>
     andThen (parseAnnotations n tokens [] i) (\<lambda>annotations i.
     andThen (consume tokens [''Identifier''] i) (\<lambda>nameToken0 i.
     andThen (requireValue tokens nameToken0 ''Unable to find identifier for field'' i)
       (\<lambda>nameToken i.
     andThen (consume tokens [''ColonToken''] i) (\<lambda>colonToken i.
     andThen (requireValue tokens colonToken ''Type annotation expected for field'' i)
       (\<lambda>_ i.
     andThen (parseTypeNode n tokens i) (\<lambda>type i.
     andThen (consume tokens [''SemicolonToken''] i) (\<lambda>semicolon0 i.
     andThen (requireValue tokens semicolon0 ''Field definition should end with semicolon'' i)
       (\<lambda>semicolon i.
       Return (FieldDefinition (Identifier (token_text nameToken) (loc nameToken))
                 annotations type
                 (createTextLocation (loc_start (loc startToken))
                    (loc_end (loc semicolon)))) i)))))))))"

fun parseFields ::
  "nat \<Rightarrow> token list \<Rightarrow> field_definition list \<Rightarrow> nat \<Rightarrow> field_definition list outcome" where
  "parseFields 0 tokens fieldDefs i = OutOfFuel"
| "parseFields (Suc n) tokens fieldDefs i =
     andThen (check tokens [''RightBraceToken''] i) (\<lambda>closed i.
       if closed then Return fieldDefs i
       else
         andThen (parseField n tokens i) (\<lambda>field i.
           case currentToken tokens i of
             None \<Rightarrow> Throw TypeError
           | Some t \<Rightarrow>
               if isStartOfDefinition t then
                 Throw (reportError tokens
                   ''Closing curly brace expected, but new statement found'' i)
               else
                 andThen (check tokens [''EOF''] i) (\<lambda>eof i.
                   if eof then
                     Throw (reportError tokens
                       ''Closing curly brace expected but reached end of file'' i)
                   else parseFields n tokens (fieldDefs @ [field]) i)))"

section \<open>Tables, databases and the schema\<close>

definition parseTableDefinition :: "nat \<Rightarrow> token list \<Rightarrow> nat \<Rightarrow> table_definition outcome" where
  "parseTableDefinition n tokens i =
     andThen (consume tokens [''TableKeyword''] i) (\<lambda>keywordToken0 i.
     andThen (requireValue tokens keywordToken0 ''Unable to find table keyword for table'' i)
       (\<lambda>keywordToken i.
     andThen (consume tokens [''Identifier''] i) (\<lambda>nameToken0 i.
     andThen (requireValue tokens nameToken0 ''Unable to find identifier for table'' i)
       (\<lambda>nameToken i.
     andThen (parseAnnotations n tokens [] i) (\<lambda>annotations i.
     andThen (consume tokens [''LeftBraceToken''] i) (\<lambda>openBrace i.
     andThen (requireValue tokens openBrace ''Expected opening curly brace'' i) (\<lambda>_ i.
     andThen (parseFields n tokens [] i) (\<lambda>fieldDefs i.
     andThen (consume tokens [''RightBraceToken''] i) (\<lambda>closeBrace0 i.
     andThen (requireValue tokens closeBrace0 ''Expected closing curly brace'' i)
       (\<lambda>closeBrace i.
       Return (TableDefinition (Identifier (token_text nameToken) (loc nameToken))
                 fieldDefs annotations
                 (createTextLocation (loc_start (loc keywordToken))
                    (loc_end (loc closeBrace)))) i))))))))))"

fun parseTableDefinitions ::
  "nat \<Rightarrow> token list \<Rightarrow> table_definition list \<Rightarrow> nat \<Rightarrow> table_definition list outcome" where
  "parseTableDefinitions 0 tokens tables i = OutOfFuel"
| "parseTableDefinitions (Suc n) tokens tables i =
     andThen (check tokens [''RightBraceToken''] i) (\<lambda>closed i.
       if closed then Return tables i
       else
         andThen (parseTableDefinition n tokens i) (\<lambda>table i.
         andThen (check tokens [''DatabaseKeyword''] i) (\<lambda>db i.
           if db then
             Throw (reportError tokens
               ''Closing curly brace expected, but new database found'' i)
           else
             andThen (check tokens [''EOF''] i) (\<lambda>eof i.
               if eof then
                 Throw (reportError tokens
                   ''Closing curly brace expected but reached end of file'' i)
               else parseTableDefinitions n tokens (tables @ [table]) i))))"

text \<open>
  After the keyword and the name, \<open>parseDatabaseDefinition\<close> asks for the opening brace
  at once: it does not call \<open>parseAnnotations\<close>, and the node it builds has no
  annotation list.
\<close>

definition parseDatabaseDefinition :: "nat \<Rightarrow> token list \<Rightarrow> nat \<Rightarrow> database_definition outcome" where
  "parseDatabaseDefinition n tokens i =
     andThen (consume tokens [''DatabaseKeyword''] i) (\<lambda>keywordToken0 i.
     andThen (requireValue tokens keywordToken0
                ''Unable to find database keyword for database'' i) (\<lambda>keywordToken i.
     andThen (consume tokens [''Identifier''] i) (\<lambda>nameToken0 i.
     andThen (requireValue tokens nameToken0 ''Unable to find identifier for database'' i)
       (\<lambda>nameToken i.
     andThen (consume tokens [''LeftBraceToken''] i) (\<lambda>openBrace i.
     andThen (requireValue tokens openBrace ''Expected opening curly brace'' i) (\<lambda>_ i.
     andThen (parseTableDefinitions n tokens [] i) (\<lambda>tables i.
     andThen (consume tokens [''RightBraceToken''] i) (\<lambda>closeBrace0 i.
     andThen (requireValue tokens closeBrace0 ''Expected closing curly brace'' i)
       (\<lambda>closeBrace i.
       Return (DatabaseDefinition (Identifier (token_text nameToken) (loc nameToken)) tables
                 (createTextLocation (loc_start (loc keywordToken))
                    (loc_end (loc closeBrace)))) i)))))))))"

definition parseDefinition :: "nat \<Rightarrow> token list \<Rightarrow> nat \<Rightarrow> definition_node outcome" where
  "parseDefinition n tokens i =
     (case currentToken tokens i of
        None \<Rightarrow> Throw TypeError
      | Some next \<Rightarrow>
          if kind next = ''DatabaseKeyword'' then
            andThen (parseDatabaseDefinition n tokens i) (\<lambda>d i. Return (DatabaseDef d) i)
          else if kind next = ''TypeKeyword'' then
            andThen (parseTypeDefinition n tokens i) (\<lambda>d i. Return (TypeDef d) i)
          else Throw (reportError tokens
                 (''Invalid start to Database definition '' @ token_text next) i))"

fun parse_loop ::
  "nat \<Rightarrow> token list \<Rightarrow> definition_node list \<Rightarrow> nat \<Rightarrow> database_schema outcome" where
  "parse_loop 0 tokens body i = OutOfFuel"
| "parse_loop (Suc n) tokens body i =
     (if isAtEnd tokens i then Return (DatabaseSchema body) i
      else
        andThen (parseDefinition n tokens i) (\<lambda>def i.
          parse_loop n tokens (body @ [def]) i))"

text \<open>\<open>createParser(tokens).parse()\<close>: the cursor starts at 0.\<close>

definition parse :: "nat \<Rightarrow> token list \<Rightarrow> database_schema outcome" where
  "parse n tokens = parse_loop n tokens [] 0"

section \<open>The TypeScript nodes built by the renderer\<close>

text \<open>
  The renderer builds TypeScript syntax trees through \<open>ts.factory\<close>. Each constructor
  below stands for the factory call of the same name (\<open>TsUnionTypeNode\<close> for
  \<open>createUnionTypeNode\<close>, and so on) and keeps the arguments the renderer passes; the
  arguments it always passes as \<open>undefined\<close> (decorators, modifiers of parameters) are
  left out. The boolean of a property signature or a parameter is its question token.
  A type reference built without type arguments has the empty list. The type parameters
  of a type alias are an option: \<open>createGetArgsType\<close> passes the empty array and
  \<open>createClientTypeDeclaration\<close> passes \<open>undefined\<close>.
\<close>

datatype ts_type =
    TsKeywordTypeNode string
  | TsTypeReferenceNode string "ts_type list"
  | TsFunctionTypeNode "ts_parameter list" ts_type
  | TsUnionTypeNode "ts_type list"
  | TsLiteralTypeNull
  | TsTypeLiteralNode "ts_property_signature list"
  | TsTypePredicateNode string ts_type
and ts_property_signature =
    TsPropertySignature string bool ts_type
and ts_parameter =
    TsParameterDeclaration string bool ts_type

datatype binary_operator =
    EqualsEqualsEqualsToken
  | AmpersandAmpersandToken
  | ExclamationEqualsToken
  | EqualsToken

datatype variable_kind = Const | Let

datatype ts_expr =
    TsIdentifier string
  | TsStringLiteral string
  | TsNull
  | TsCallExpression ts_expr "ts_expr list"
  | TsPropertyAccessExpression ts_expr string
  | TsBinaryExpression ts_expr binary_operator ts_expr
  | TsTypeOfExpression ts_expr
  | TsNewExpression ts_expr "ts_expr list"
  | TsArrowFunction "ts_parameter list" "ts_type option" ts_stmt
and ts_stmt =
    TsIfStatement ts_expr ts_stmt "ts_stmt option"
  | TsBlock "ts_stmt list"
  | TsExpressionStatement ts_expr
  | TsReturnStatement ts_expr
  | TsVariableStatement variable_kind ts_expr "ts_type option" ts_expr

fun propertyName :: "ts_property_signature \<Rightarrow> string" where
  "propertyName (TsPropertySignature n _ _) = n"

datatype modifier = ExportKeyword

datatype ts_declaration =
  TsTypeAliasDeclaration "modifier list" string "ts_type list option" ts_type

text \<open>The names of the members of a type alias whose type is a type literal, in order.\<close>

fun memberNames :: "ts_declaration \<Rightarrow> string list" where
  "memberNames (TsTypeAliasDeclaration _ _ _ (TsTypeLiteralNode members)) =
     map propertyName members"
| "memberNames _ = []"

text \<open>\<open>ts.factory.createAssignment(left, right)\<close> is the binary expression \<open>left = right\<close>.\<close>

definition createAssignment :: "ts_expr \<Rightarrow> ts_expr \<Rightarrow> ts_expr" where
  "createAssignment left right = TsBinaryExpression left EqualsToken right"

section \<open>Helpers of the renderer that are not in the sources\<close>

text \<open>
  Modelled from the spec: \<open>createConstStatement\<close> and \<open>createLetStatement\<close> (module
  \<open>../helpers\<close>, not in the sources) build the statement of one variable with \<open>const\<close> or \<open>let\<close>, from
  its name, its optional type and its initializer.
\<close>

definition createConstStatement :: "ts_expr \<Rightarrow> ts_type option \<Rightarrow> ts_expr \<Rightarrow> ts_stmt" where
  "createConstStatement variableName variableType initializer =
     TsVariableStatement Const variableName variableType initializer"

definition createLetStatement :: "ts_expr \<Rightarrow> ts_type option \<Rightarrow> ts_expr \<Rightarrow> ts_stmt" where
  "createLetStatement variableName variableType initializer =
     TsVariableStatement Let variableName variableType initializer"

text \<open>
  Modelled from the spec: \<open>createNumberType\<close> (module \<open>../types\<close>, not in the sources)
  is the TypeScript keyword type \<open>number\<close>.
\<close>

definition createNumberType :: ts_type where
  "createNumberType = TsKeywordTypeNode ''number''"

text \<open>
  Modelled from the spec: \<open>capitalize\<close> (module \<open>../utils\<close>, not in the sources) gives
  the capitalized name: the first character in upper case, the rest unchanged.
  Characters are ASCII here: a letter \<open>a\<close> to \<open>z\<close> (codes 97 to 122) and its capital
  differ in the bit of weight 32, which is clear in the capital.
\<close>

definition toUpperCaseChar :: "char \<Rightarrow> char" where
  "toUpperCaseChar c =
     (let n = (of_char c :: nat) in
      if 97 \<le> n \<and> n \<le> 122 then
        (case c of Char b0 b1 b2 b3 b4 b5 b6 b7 \<Rightarrow> Char b0 b1 b2 b3 b4 False b6 b7)
      else c)"

definition toLowerCaseChar :: "char \<Rightarrow> char" where
  "toLowerCaseChar c =
     (let n = (of_char c :: nat) in
      if 65 \<le> n \<and> n \<le> 90 then
        (case c of Char b0 b1 b2 b3 b4 b5 b6 b7 \<Rightarrow> Char b0 b1 b2 b3 b4 True b6 b7)
      else c)"

fun capitalize :: "string \<Rightarrow> string" where
  "capitalize [] = []"
| "capitalize (c # cs) = toUpperCaseChar c # cs"

text \<open>
  JavaScript's \<open>String.prototype.toLowerCase\<close> is a built-in that maps every letter of
  Unicode; the function that calls it takes it as the parameter \<open>toLowerCase\<close>.
  \<open>toLowerCaseAscii\<close> is what the built-in gives on a string of ASCII characters,
  and stands for it in the examples, whose names are ASCII.
\<close>

definition toLowerCaseAscii :: "string \<Rightarrow> string" where
  "toLowerCaseAscii s = map toLowerCaseChar s"

text \<open>The fields of the AST nodes that the renderer reads.\<close>

fun identifierValue :: "identifier_node \<Rightarrow> string" where
  "identifierValue (Identifier v _) = v"

fun stringLiteralValue :: "string_literal \<Rightarrow> string" where
  "stringLiteralValue (StringLiteral v _) = v"

fun annotationName :: "annotation \<Rightarrow> identifier_node" where
  "annotationName (Annotation n _ _) = n"

fun annotationArguments :: "annotation \<Rightarrow> string_literal list" where
  "annotationArguments (Annotation _ args _) = args"

fun tableName :: "table_definition \<Rightarrow> identifier_node" where
  "tableName (TableDefinition n _ _ _) = n"

fun tableAnnotations :: "table_definition \<Rightarrow> annotation list" where
  "tableAnnotations (TableDefinition _ _ anns _) = anns"

fun databaseBody :: "database_definition \<Rightarrow> table_definition list" where
  "databaseBody (DatabaseDefinition _ tables _) = tables"

text \<open>
  Modelled from the spec: \<open>getAnnotationsByName\<close> (module \<open>../keys\<close>, not in the
  sources) gives the annotations of the list that carry the given name, in their order.
\<close>

definition getAnnotationsByName :: "annotation list \<Rightarrow> string \<Rightarrow> annotation list" where
  "getAnnotationsByName annotations n =
     filter (\<lambda>a. identifierValue (annotationName a) = n) annotations"

text \<open>
  \<open>TableIndex\<close> is declared in the module \<open>../keys\<close>, not in the sources; the renderer
  reads its fields \<open>indexKind\<close> (\<open>'key'\<close> or \<open>'index'\<close>), \<open>name\<close> and \<open>type\<close> (the
  type node of the schema). \<open>getIndexesForTable\<close>, of the same module, is a parameter of
  the functions that call it: the index list of a table, or the error it throws.
  \<open>typeForTypeNode\<close> (module \<open>../types\<close>) is a parameter in the same way.
\<close>

datatype index_kind = Key | Index

record table_index =
  indexKind :: index_kind
  name :: string
  type :: type_node

section \<open>Errors of the renderer\<close>

definition bindE :: "error + 'a \<Rightarrow> ('a \<Rightarrow> error + 'b) \<Rightarrow> error + 'b" where
  "bindE m f = (case m of Inl e \<Rightarrow> Inl e | Inr a \<Rightarrow> f a)"

fun mapE :: "('a \<Rightarrow> error + 'b) \<Rightarrow> 'a list \<Rightarrow> error + 'b list" where
  "mapE f [] = Inr []"
| "mapE f (x # xs) = bindE (f x) (\<lambda>y. bindE (mapE f xs) (\<lambda>ys. Inr (y # ys)))"

section \<open>Item names (client/type.ts)\<close>

definition getItemNameForTable :: "table_definition \<Rightarrow> error + string" where
  "getItemNameForTable def =
     (let itemAnnotations = getAnnotationsByName (tableAnnotations def) ''item'' in
      if length itemAnnotations > 1 then
        Inl (Error (''Table can only include one annotation for ''
                      @ [CHR 0x22] @ ''item'' @ [CHR 0x22]))
      else
        let itemArguments =
              (case itemAnnotations of [] \<Rightarrow> None | a # _ \<Rightarrow> Some (annotationArguments a))
        in if (case itemArguments of None \<Rightarrow> False | Some args \<Rightarrow> length args > 1) then
             Inl (Error ''Table can only include one name alias'')
           else
             (case itemArguments of
                Some (a # _) \<Rightarrow> Inr (stringLiteralValue a)
              | _ \<Rightarrow> Inr (capitalize (identifierValue (tableName def)))))"

section \<open>The argument type of get (client/getMethod.ts)\<close>

definition createGetArgsTypeName :: "table_definition \<Rightarrow> string" where
  "createGetArgsTypeName def = capitalize (identifierValue (tableName def)) @ ''GetArgs''"

definition createGetArgsTypeNode :: "table_definition \<Rightarrow> ts_type" where
  "createGetArgsTypeNode def = TsTypeReferenceNode (createGetArgsTypeName def) []"

definition createGetMethodTypeNode :: "table_definition \<Rightarrow> error + ts_type" where
  "createGetMethodTypeNode def =
     bindE (getItemNameForTable def) (\<lambda>itemName.
       Inr (TsFunctionTypeNode
              [TsParameterDeclaration ''arg'' False (createGetArgsTypeNode def)]
              (TsTypeReferenceNode ''Promise'' [TsTypeReferenceNode itemName []])))"

definition typeNodeForIndex :: "(type_node \<Rightarrow> ts_type) \<Rightarrow> table_index \<Rightarrow> ts_type" where
  "typeNodeForIndex typeForTypeNode index =
     (case indexKind index of
        Key \<Rightarrow> createNumberType
      | Index \<Rightarrow>
          TsTypeLiteralNode
            [TsPropertySignature (name index) False (typeForTypeNode (type index))])"

definition createGetArgsType ::
  "(table_definition \<Rightarrow> error + table_index list) \<Rightarrow> (type_node \<Rightarrow> ts_type)
     \<Rightarrow> table_definition \<Rightarrow> error + ts_declaration" where
  "createGetArgsType getIndexesForTable typeForTypeNode def =
     bindE (getIndexesForTable def) (\<lambda>indexes.
       Inr (TsTypeAliasDeclaration [ExportKeyword] (createGetArgsTypeName def) (Some [])
              (TsUnionTypeNode (map (\<lambda>next. typeNodeForIndex typeForTypeNode next) indexes))))"

section \<open>Dispatch on the indexes in the body of get\<close>

definition createPredicateNameForIndex :: "table_definition \<Rightarrow> table_index \<Rightarrow> string" where
  "createPredicateNameForIndex def field =
     ''is'' @ capitalize (identifierValue (tableName def)) @ capitalize (name field) @ ''Index''"

fun createConditionsForIndexes ::
  "table_definition \<Rightarrow> table_index list \<Rightarrow> table_index list \<Rightarrow> ts_stmt list" where
  "createConditionsForIndexes def (next # remaining) keys =
     [TsIfStatement
        (TsCallExpression (TsIdentifier (createPredicateNameForIndex def next))
           [TsIdentifier ''arg''])
        (TsBlock
           [createConstStatement (TsIdentifier ''index'')
              (Some (TsTypeReferenceNode ''IDBIndex'' []))
              (TsCallExpression (TsPropertyAccessExpression (TsIdentifier ''store'') ''index'')
                 [TsStringLiteral (name next)]),
            TsExpressionStatement
              (createAssignment (TsIdentifier ''getRequest'')
                 (TsCallExpression (TsPropertyAccessExpression (TsIdentifier ''index'') ''get'')
                    [TsPropertyAccessExpression (TsIdentifier ''arg'') (name next)]))])
        (case createConditionsForIndexes def remaining keys of
           [] \<Rightarrow> None
         | first # _ \<Rightarrow> Some first)]"
| "createConditionsForIndexes def [] keys =
     (if length keys > 0 then
        [TsBlock
           [TsExpressionStatement
              (createAssignment (TsIdentifier ''getRequest'')
                 (TsCallExpression (TsPropertyAccessExpression (TsIdentifier ''store'') ''get'')
                    [TsIdentifier ''arg'']))]]
      else [])"

text \<open>
  \<open>createOnErrorHandler\<close> and \<open>createOnSuccessHandler\<close> (module \<open>./common\<close>) are not in
  the sources: they are parameters, each giving the statement built for a request name.
  \<open>COMMON_IDENTIFIERS.getRequest\<close> and \<open>COMMON_IDENTIFIERS.reject\<close> are the identifiers
  \<open>getRequest\<close> and \<open>reject\<close>.
\<close>

definition createIndexAccessHandling ::
  "(table_definition \<Rightarrow> error + table_index list) \<Rightarrow> (string \<Rightarrow> ts_stmt) \<Rightarrow> (string \<Rightarrow> ts_stmt)
     \<Rightarrow> table_definition \<Rightarrow> error + ts_stmt list" where
  "createIndexAccessHandling getIndexesForTable createOnErrorHandler createOnSuccessHandler def =
     bindE (getIndexesForTable def) (\<lambda>indexesAndKeys.
       let indexes = filter (\<lambda>next. indexKind next \<noteq> Key) indexesAndKeys;
           keys = filter (\<lambda>next. indexKind next \<noteq> Index) indexesAndKeys
       in bindE (getItemNameForTable def) (\<lambda>itemName.
            Inr ([createLetStatement (TsIdentifier ''getRequest'')
                    (Some (TsUnionTypeNode
                             [TsTypeReferenceNode ''IDBRequest'' [TsTypeReferenceNode itemName []],
                              TsLiteralTypeNull]))
                    TsNull]
                 @ createConditionsForIndexes def indexes keys
                 @ [TsIfStatement
                      (TsBinaryExpression (TsIdentifier ''getRequest'') ExclamationEqualsToken
                         TsNull)
                      (TsBlock
                         [createOnErrorHandler ''getRequest'',
                          createOnSuccessHandler ''getRequest''])
                      (Some (TsBlock
                         [TsExpressionStatement
                            (TsCallExpression (TsIdentifier ''reject'')
                               [TsNewExpression (TsIdentifier ''Error'')
                                  [TsStringLiteral
                                     ''No available index for given query'']])]))])))"

section \<open>The index predicates\<close>

definition createIndexPredicates ::
  "(table_definition \<Rightarrow> error + table_index list) \<Rightarrow> (type_node \<Rightarrow> ts_type)
     \<Rightarrow> table_definition \<Rightarrow> error + ts_stmt list" where
  "createIndexPredicates getIndexesForTable typeForTypeNode def =
     bindE (getIndexesForTable def) (\<lambda>indexes.
       Inr (map (\<lambda>next.
              createConstStatement (TsIdentifier (createPredicateNameForIndex def next)) None
                (TsArrowFunction
                   [TsParameterDeclaration ''arg'' False (createGetArgsTypeNode def)]
                   (Some (TsTypePredicateNode ''arg'' (typeNodeForIndex typeForTypeNode next)))
                   (TsBlock
                      [TsReturnStatement
                         (TsBinaryExpression
                            (TsBinaryExpression (TsTypeOfExpression (TsIdentifier ''arg''))
                               EqualsEqualsEqualsToken (TsStringLiteral ''object''))
                            AmpersandAmpersandToken
                            (TsCallExpression
                               (TsPropertyAccessExpression (TsIdentifier ''Reflect'') ''has'')
                               [TsIdentifier ''arg'', TsStringLiteral (name next)]))])))
            indexes))"

section \<open>The type of the client (client/type.ts)\<close>

text \<open>
  \<open>createDatabaseClientName\<close>, \<open>createAddMethodTypeNode\<close> and
  \<open>createGetAllMethodTypeNode\<close> are not in the sources: they are parameters, the two
  method types with the error they may throw. \<open>toLowerCase\<close> is the built-in of
  JavaScript that \<open>next.name.value.toLowerCase()\<close> calls, a parameter too.
\<close>

definition createClientTypeDeclaration ::
  "(database_definition \<Rightarrow> string) \<Rightarrow> (string \<Rightarrow> string)
     \<Rightarrow> (table_definition \<Rightarrow> error + ts_type) \<Rightarrow> (table_definition \<Rightarrow> error + ts_type)
     \<Rightarrow> database_definition \<Rightarrow> error + ts_declaration" where
  "createClientTypeDeclaration createDatabaseClientName toLowerCase createAddMethodTypeNode
       createGetAllMethodTypeNode def =
     bindE (mapE (\<lambda>next.
              bindE (createAddMethodTypeNode next) (\<lambda>addType.
              bindE (createGetMethodTypeNode next) (\<lambda>getType.
              bindE (createGetAllMethodTypeNode next) (\<lambda>getAllType.
                Inr (TsPropertySignature (toLowerCase (identifierValue (tableName next))) False
                       (TsTypeLiteralNode
                          [TsPropertySignature ''add'' False addType,
                           TsPropertySignature ''get'' False getType,
                           TsPropertySignature ''getAll'' False getAllType]))))))
            (databaseBody def)) (\<lambda>members.
       Inr (TsTypeAliasDeclaration [ExportKeyword] (createDatabaseClientName def) None
              (TsTypeLiteralNode members)))"

section \<open>Running a generated predicate\<close>

text \<open>
  The values a generated predicate can be called with, and the evaluation of the
  expression forms that \<open>createIndexPredicates\<close> emits: an identifier, a string literal,
  \<open>typeof\<close>, \<open>===\<close>, \<open>&&\<close> and the call \<open>Reflect.has(target, key)\<close>. An object is the list
  of the properties that \<open>Reflect.has\<close> sees on it, with their values. A form outside
  this fragment is \<open>Unsupported\<close>.
\<close>

datatype js_value =
    JsUndefined
  | JsNull
  | JsBoolean bool
  | JsNumber int
  | JsString string
  | JsObject "(string \<times> js_value) list"

datatype completion =
    Normal js_value
  | Thrown string
  | Unsupported

fun typeof :: "js_value \<Rightarrow> string" where
  "typeof JsUndefined = ''undefined''"
| "typeof JsNull = ''object''"
| "typeof (JsBoolean _) = ''boolean''"
| "typeof (JsNumber _) = ''number''"
| "typeof (JsString _) = ''string''"
| "typeof (JsObject _) = ''object''"

fun toBoolean :: "js_value \<Rightarrow> bool" where
  "toBoolean JsUndefined = False"
| "toBoolean JsNull = False"
| "toBoolean (JsBoolean b) = b"
| "toBoolean (JsNumber n) = (n \<noteq> 0)"
| "toBoolean (JsString s) = (s \<noteq> [])"
| "toBoolean (JsObject _) = True"

fun isObject :: "js_value \<Rightarrow> bool" where
  "isObject (JsObject _) = True"
| "isObject _ = False"

text \<open>Two objects are equal by identity, which the values do not carry.\<close>

definition strictEquals :: "js_value \<Rightarrow> js_value \<Rightarrow> completion" where
  "strictEquals x y =
     (if isObject x \<and> isObject y then Unsupported else Normal (JsBoolean (x = y)))"

definition reflectHas :: "js_value \<Rightarrow> js_value \<Rightarrow> completion" where
  "reflectHas target propertyKey =
     (case target of
        JsObject properties \<Rightarrow>
          (case propertyKey of
             JsString k \<Rightarrow> Normal (JsBoolean (k \<in> set (map fst properties)))
           | _ \<Rightarrow> Unsupported)
      | _ \<Rightarrow> Thrown ''TypeError'')"

fun evalExpr :: "(string \<Rightarrow> js_value option) \<Rightarrow> ts_expr \<Rightarrow> completion" where
  "evalExpr env (TsIdentifier x) =
     (case env x of None \<Rightarrow> Thrown ''ReferenceError'' | Some v \<Rightarrow> Normal v)"
| "evalExpr env (TsStringLiteral s) = Normal (JsString s)"
| "evalExpr env TsNull = Normal JsNull"
| "evalExpr env (TsTypeOfExpression e) =
     (case evalExpr env e of
        Normal v \<Rightarrow> Normal (JsString (typeof v))
      | r \<Rightarrow> r)"
| "evalExpr env (TsBinaryExpression a operator b) =
     (case evalExpr env a of
        Normal x \<Rightarrow>
          (case operator of
             EqualsEqualsEqualsToken \<Rightarrow>
               (case evalExpr env b of Normal y \<Rightarrow> strictEquals x y | r \<Rightarrow> r)
           | AmpersandAmpersandToken \<Rightarrow>
               (if toBoolean x then evalExpr env b else Normal x)
           | _ \<Rightarrow> Unsupported)
      | r \<Rightarrow> r)"
| "evalExpr env (TsCallExpression callee arguments) =
     (case (callee, arguments) of
        (TsPropertyAccessExpression (TsIdentifier obj) method, [target, propertyKey]) \<Rightarrow>
          if obj = ''Reflect'' \<and> method = ''has'' \<and> env obj = None then
            (case evalExpr env target of
               Normal t \<Rightarrow>
                 (case evalExpr env propertyKey of Normal k \<Rightarrow> reflectHas t k | r \<Rightarrow> r)
             | r \<Rightarrow> r)
          else Unsupported
      | _ \<Rightarrow> Unsupported)"
| "evalExpr env (TsPropertyAccessExpression _ _) = Unsupported"
| "evalExpr env (TsNewExpression _ _) = Unsupported"
| "evalExpr env (TsArrowFunction _ _ _) = Unsupported"

text \<open>
  Calling an arrow function of one parameter whose body is a single \<open>return\<close>, which is
  the form of every generated predicate, with the parameter bound to the argument.
\<close>

definition callArrowFunction :: "ts_expr \<Rightarrow> js_value \<Rightarrow> completion" where
  "callArrowFunction f v =
     (case f of
        TsArrowFunction [TsParameterDeclaration p _ _] _ (TsBlock [TsReturnStatement e]) \<Rightarrow>
          evalExpr (Map.empty(p \<mapsto> v)) e
      | _ \<Rightarrow> Unsupported)"

definition hasProperty :: "js_value \<Rightarrow> string \<Rightarrow> bool" where
  "hasProperty v k = (case v of JsObject properties \<Rightarrow> k \<in> set (map fst properties) | _ \<Rightarrow> False)"

fun typePredicateOf :: "ts_expr \<Rightarrow> ts_type option" where
  "typePredicateOf (TsArrowFunction _ (Some (TsTypePredicateNode _ t)) _) = Some t"
| "typePredicateOf _ = None"

section \<open>Running the dispatch of a generated get body\<close>

text \<open>
  The statements of \<open>createIndexAccessHandling\<close> are run on symbolic values: the argument
  \<open>arg\<close> of get, its properties, the object store, an index of the store, and the
  requests made from them. The outcome of a predicate call \<open>p(arg)\<close> is given by
  \<open>holds p\<close>. A statement or expression outside the forms below gives \<open>None\<close>.
\<close>

datatype sym =
    SymNull
  | SymArg
  | SymArgProperty string
  | SymString string
  | SymStore
  | SymIndex string
  | SymStoreGet sym
  | SymIndexGet string sym
  | SymError sym

record run_state =
  variables :: "string \<Rightarrow> sym option"
  rejected :: "sym option"

fun symMethod :: "sym \<Rightarrow> string \<Rightarrow> sym \<Rightarrow> sym option" where
  "symMethod SymStore m a =
     (if m = ''index'' then (case a of SymString n \<Rightarrow> Some (SymIndex n) | _ \<Rightarrow> None)
      else if m = ''get'' then Some (SymStoreGet a)
      else None)"
| "symMethod (SymIndex n) m a = (if m = ''get'' then Some (SymIndexGet n a) else None)"
| "symMethod _ _ _ = None"

fun symExpr :: "(string \<Rightarrow> sym option) \<Rightarrow> ts_expr \<Rightarrow> sym option" where
  "symExpr env (TsIdentifier x) = env x"
| "symExpr env TsNull = Some SymNull"
| "symExpr env (TsStringLiteral s) = Some (SymString s)"
| "symExpr env (TsPropertyAccessExpression e p) =
     (case symExpr env e of Some SymArg \<Rightarrow> Some (SymArgProperty p) | _ \<Rightarrow> None)"
| "symExpr env (TsCallExpression callee arguments) =
     (case (callee, arguments) of
        (TsPropertyAccessExpression obj m, [a]) \<Rightarrow>
          (case symExpr env obj of
             None \<Rightarrow> None
           | Some receiver \<Rightarrow>
               (case symExpr env a of None \<Rightarrow> None | Some v \<Rightarrow> symMethod receiver m v))
      | _ \<Rightarrow> None)"
| "symExpr env (TsNewExpression callee arguments) =
     (case (callee, arguments) of
        (TsIdentifier c, [a]) \<Rightarrow>
          if c = ''Error'' \<and> env c = None then map_option SymError (symExpr env a) else None
      | _ \<Rightarrow> None)"
| "symExpr env (TsBinaryExpression _ _ _) = None"
| "symExpr env (TsTypeOfExpression _) = None"
| "symExpr env (TsArrowFunction _ _ _) = None"

text \<open>Whether a symbolic value is \<open>null\<close>; a store, an index, a request or an error is an object.\<close>

fun symIsNull :: "sym \<Rightarrow> bool option" where
  "symIsNull SymNull = Some True"
| "symIsNull SymStore = Some False"
| "symIsNull (SymIndex _) = Some False"
| "symIsNull (SymStoreGet _) = Some False"
| "symIsNull (SymIndexGet _ _) = Some False"
| "symIsNull (SymError _) = Some False"
| "symIsNull (SymString _) = Some False"
| "symIsNull _ = None"

definition symCond :: "(string \<Rightarrow> bool) \<Rightarrow> (string \<Rightarrow> sym option) \<Rightarrow> ts_expr \<Rightarrow> bool option" where
  "symCond holds env c =
     (case c of
        TsCallExpression (TsIdentifier p) [TsIdentifier a] \<Rightarrow>
          if env a = Some SymArg \<and> env p = None then Some (holds p) else None
      | TsBinaryExpression l ExclamationEqualsToken TsNull \<Rightarrow>
          (case symExpr env l of
             None \<Rightarrow> None
           | Some v \<Rightarrow> map_option Not (symIsNull v))
      | _ \<Rightarrow> None)"

fun declaredNames :: "ts_stmt list \<Rightarrow> string list" where
  "declaredNames [] = []"
| "declaredNames (TsVariableStatement _ (TsIdentifier x) _ _ # rest) = x # declaredNames rest"
| "declaredNames (_ # rest) = declaredNames rest"

text \<open>
  A block has its own scope: the variables it declares are gone when it ends, and its
  assignments to the variables around it stay.
\<close>

fun exec :: "(string \<Rightarrow> bool) \<Rightarrow> ts_stmt \<Rightarrow> run_state \<Rightarrow> run_state option"
  and execList :: "(string \<Rightarrow> bool) \<Rightarrow> ts_stmt list \<Rightarrow> run_state \<Rightarrow> run_state option"
where
  "exec holds (TsVariableStatement _ target _ initializer) st =
     (case target of
        TsIdentifier x \<Rightarrow>
          (case symExpr (variables st) initializer of
             None \<Rightarrow> None
           | Some v \<Rightarrow> Some (st\<lparr>variables := (variables st)(x \<mapsto> v)\<rparr>))
      | _ \<Rightarrow> None)"
| "exec holds (TsExpressionStatement e) st =
     (case e of
        TsBinaryExpression (TsIdentifier x) EqualsToken right \<Rightarrow>
          (case variables st x of
             None \<Rightarrow> None
           | Some _ \<Rightarrow>
               (case symExpr (variables st) right of
                  None \<Rightarrow> None
                | Some v \<Rightarrow> Some (st\<lparr>variables := (variables st)(x \<mapsto> v)\<rparr>)))
      | TsCallExpression (TsIdentifier f) [a] \<Rightarrow>
          if f = ''reject'' \<and> variables st f = None then
            (case symExpr (variables st) a of
               None \<Rightarrow> None
             | Some v \<Rightarrow> Some (st\<lparr>rejected := Some v\<rparr>))
          else None
      | _ \<Rightarrow> None)"
| "exec holds (TsIfStatement c thenStatement elseStatement) st =
     (case symCond holds (variables st) c of
        None \<Rightarrow> None
      | Some True \<Rightarrow> exec holds thenStatement st
      | Some False \<Rightarrow>
          (case elseStatement of
             None \<Rightarrow> Some st
           | Some s \<Rightarrow> exec holds s st))"
| "exec holds (TsBlock statements) st =
     (case execList holds statements st of
        None \<Rightarrow> None
      | Some st' \<Rightarrow>
          Some (st'\<lparr>variables :=
                      (\<lambda>x. if x \<in> set (declaredNames statements) then variables st x
                           else variables st' x)\<rparr>))"
| "exec holds (TsReturnStatement _) st = None"
| "execList holds [] st = Some st"
| "execList holds (s # rest) st =
     (case exec holds s st of
        None \<Rightarrow> None
      | Some st' \<Rightarrow> execList holds rest st')"

text \<open>
  The body of get: the statements before the last one set \<open>getRequest\<close>; the last one
  tests it. Either control enters the branch that puts the handlers on the request, or
  the other branch runs and calls \<open>reject\<close>. In the body, \<open>arg\<close> is the parameter of get
  and \<open>store\<close> is the object store of the table.
\<close>

datatype dispatch =
    Proceed sym ts_stmt
  | Rejected sym

definition initialState :: run_state where
  "initialState =
     \<lparr>variables = Map.empty(''arg'' \<mapsto> SymArg, ''store'' \<mapsto> SymStore), rejected = None\<rparr>"

definition runGetBody :: "(string \<Rightarrow> bool) \<Rightarrow> ts_stmt list \<Rightarrow> dispatch option" where
  "runGetBody holds statements =
     (if statements = [] then None
      else
        case execList holds (butlast statements) initialState of
          None \<Rightarrow> None
        | Some st \<Rightarrow>
            (case last statements of
               TsIfStatement c thenStatement (Some elseStatement) \<Rightarrow>
                 (case symCond holds (variables st) c of
                    None \<Rightarrow> None
                  | Some True \<Rightarrow>
                      (case (variables st ''getRequest'', rejected st) of
                         (Some request, None) \<Rightarrow> Some (Proceed request thenStatement)
                       | _ \<Rightarrow> None)
                  | Some False \<Rightarrow>
                      (case exec holds elseStatement st of
                         None \<Rightarrow> None
                       | Some st' \<Rightarrow> map_option Rejected (rejected st')))
             | _ \<Rightarrow> None))"

section \<open>Example inputs\<close>

definition mkToken :: "string \<Rightarrow> string \<Rightarrow> nat \<Rightarrow> nat \<Rightarrow> token" where
  "mkToken k t s e = \<lparr>kind = k, token_text = t, loc = \<lparr>loc_start = s, loc_end = e\<rparr>\<rparr>"

text \<open>The tokens of \<^verbatim>\<open>database Blog { table Posts @item(Post) { } }\<close>.\<close>

definition unquotedItemTokens :: "token list" where
  "unquotedItemTokens =
     [mkToken ''DatabaseKeyword'' ''database'' 0 8, mkToken ''Identifier'' ''Blog'' 9 13,
      mkToken ''LeftBraceToken'' ''{'' 14 15, mkToken ''TableKeyword'' ''table'' 16 21,
      mkToken ''Identifier'' ''Posts'' 22 27, mkToken ''AtToken'' ''@'' 28 29,
      mkToken ''Identifier'' ''item'' 29 33, mkToken ''LeftParenToken'' ''('' 33 34,
      mkToken ''Identifier'' ''Post'' 34 38, mkToken ''RightParenToken'' '')'' 38 39,
      mkToken ''LeftBraceToken'' ''{'' 40 41, mkToken ''RightBraceToken'' ''}'' 42 43,
      mkToken ''RightBraceToken'' ''}'' 44 45, mkToken ''EOF'' [] 45 45]"

text \<open>The tokens of \<^verbatim>\<open>database Blog @version(1) { }\<close>.\<close>

definition versionedDatabaseTokens :: "token list" where
  "versionedDatabaseTokens =
     [mkToken ''DatabaseKeyword'' ''database'' 0 8, mkToken ''Identifier'' ''Blog'' 9 13,
      mkToken ''AtToken'' ''@'' 14 15, mkToken ''Identifier'' ''version'' 15 22,
      mkToken ''LeftParenToken'' ''('' 22 23, mkToken ''IntegerLiteral'' ''1'' 23 24,
      mkToken ''RightParenToken'' '')'' 24 25, mkToken ''LeftBraceToken'' ''{'' 26 27,
      mkToken ''RightBraceToken'' ''}'' 28 29, mkToken ''EOF'' [] 29 29]"

text \<open>The tokens of \<^verbatim>\<open>database D { table T { m: Map<string>; } }\<close>.\<close>

definition mapStringFieldTokens :: "token list" where
  "mapStringFieldTokens =
     [mkToken ''DatabaseKeyword'' ''database'' 0 8, mkToken ''Identifier'' ''D'' 9 10,
      mkToken ''LeftBraceToken'' ''{'' 11 12, mkToken ''TableKeyword'' ''table'' 13 18,
      mkToken ''Identifier'' ''T'' 19 20, mkToken ''LeftBraceToken'' ''{'' 21 22,
      mkToken ''Identifier'' ''m'' 23 24, mkToken ''ColonToken'' '':'' 24 25,
      mkToken ''Identifier'' ''Map'' 26 29, mkToken ''LessThanToken'' ''<'' 29 30,
      mkToken ''StringKeyword'' ''string'' 30 36, mkToken ''GreaterThanToken'' ''>'' 36 37,
      mkToken ''SemicolonToken'' '';'' 37 38, mkToken ''RightBraceToken'' ''}'' 39 40,
      mkToken ''RightBraceToken'' ''}'' 41 42, mkToken ''EOF'' [] 42 42]"

text \<open>The tokens of \<^verbatim>\<open>database D { table T { m: Map<string, number>; } }\<close>.\<close>

definition mapStringNumberFieldTokens :: "token list" where
  "mapStringNumberFieldTokens =
     [mkToken ''DatabaseKeyword'' ''database'' 0 8, mkToken ''Identifier'' ''D'' 9 10,
      mkToken ''LeftBraceToken'' ''{'' 11 12, mkToken ''TableKeyword'' ''table'' 13 18,
      mkToken ''Identifier'' ''T'' 19 20, mkToken ''LeftBraceToken'' ''{'' 21 22,
      mkToken ''Identifier'' ''m'' 23 24, mkToken ''ColonToken'' '':'' 24 25,
      mkToken ''Identifier'' ''Map'' 26 29, mkToken ''LessThanToken'' ''<'' 29 30,
      mkToken ''StringKeyword'' ''string'' 30 36, mkToken ''CommaToken'' '','' 36 37,
      mkToken ''NumberKeyword'' ''number'' 38 44, mkToken ''GreaterThanToken'' ''>'' 44 45,
      mkToken ''SemicolonToken'' '';'' 45 46, mkToken ''RightBraceToken'' ''}'' 47 48,
      mkToken ''RightBraceToken'' ''}'' 49 50, mkToken ''EOF'' [] 50 50]"

text \<open>The tokens of \<^verbatim>\<open>Map<string>>;\<close>, with the closing bracket doubled.\<close>

definition doubledBracketTokens :: "token list" where
  "doubledBracketTokens =
     [mkToken ''Identifier'' ''Map'' 0 3, mkToken ''LessThanToken'' ''<'' 3 4,
      mkToken ''StringKeyword'' ''string'' 4 10, mkToken ''GreaterThanToken'' ''>'' 10 11,
      mkToken ''GreaterThanToken'' ''>'' 11 12, mkToken ''SemicolonToken'' '';'' 12 13]"

definition noLocation :: text_location where
  "noLocation = \<lparr>loc_start = 0, loc_end = 0\<rparr>"

definition tableNamed :: "string \<Rightarrow> annotation list \<Rightarrow> table_definition" where
  "tableNamed n annotations =
     TableDefinition (Identifier n noLocation) [] annotations noLocation"

definition itemAnnotation :: "string list \<Rightarrow> annotation" where
  "itemAnnotation args =
     Annotation (Identifier ''item'' noLocation) (map (\<lambda>a. StringLiteral a noLocation) args)
       noLocation"

definition stringType :: type_node where
  "stringType = KeywordFieldType ''StringKeyword'' noLocation"

definition numberType :: type_node where
  "numberType = KeywordFieldType ''NumberKeyword'' noLocation"

text \<open>
  Modelled from the spec: \<open>typeForTypeNode\<close> (module \<open>../types\<close>, not in the sources)
  gives a field its underlying TypeScript type: a keyword type for a keyword of the
  schema, a type reference for a reference. The spec does not say what a literal node
  gives; it is given the keyword type of the literal here, and no theorem below reads
  that case. The theorems that hold for every \<open>typeForTypeNode\<close> take it as a variable;
  this definition serves where a closed term is needed.
\<close>

fun typeForTypeNode :: "type_node \<Rightarrow> ts_type" where
  "typeForTypeNode (KeywordFieldType k _) =
     TsKeywordTypeNode
       (if k = ''StringKeyword'' then ''string''
        else if k = ''NumberKeyword'' then ''number''
        else if k = ''BooleanKeyword'' then ''boolean''
        else k)"
| "typeForTypeNode (TypeReferenceNode n typeArgs _) =
     TsTypeReferenceNode (identifierValue n) (map typeForTypeNode typeArgs)"
| "typeForTypeNode (StringLiteralNode _ _) = TsKeywordTypeNode ''string''"
| "typeForTypeNode (IntegerLiteral _ _) = TsKeywordTypeNode ''number''"
| "typeForTypeNode (FloatLiteral _ _) = TsKeywordTypeNode ''number''"
| "typeForTypeNode (BooleanLiteral _ _) = TsKeywordTypeNode ''boolean''"

text \<open>
  The index list of a table whose key is \<open>id: number\<close> and whose indexes are
  \<open>title: string\<close> and \<open>author: string\<close>; of a table whose key is \<open>email: string\<close>;
  of a table with the index named \<open>title_author\<close>; of a table without key.
\<close>

definition postsIndexes :: "table_index list" where
  "postsIndexes =
     [\<lparr>indexKind = Key, name = ''id'', type = numberType\<rparr>,
      \<lparr>indexKind = Index, name = ''title'', type = stringType\<rparr>,
      \<lparr>indexKind = Index, name = ''author'', type = stringType\<rparr>]"

definition usersIndexes :: "table_index list" where
  "usersIndexes = [\<lparr>indexKind = Key, name = ''email'', type = stringType\<rparr>]"

definition compoundIndexes :: "table_index list" where
  "compoundIndexes =
     [\<lparr>indexKind = Key, name = ''id'', type = numberType\<rparr>,
      \<lparr>indexKind = Index, name = ''title_author'', type = stringType\<rparr>]"

definition keylessIndexes :: "table_index list" where
  "keylessIndexes = [\<lparr>indexKind = Index, name = ''title'', type = stringType\<rparr>]"

definition blogDatabase :: database_definition where
  "blogDatabase =
     DatabaseDefinition (Identifier ''Blog'' noLocation)
       [tableNamed ''Posts'' [itemAnnotation [''Post'']], tableNamed ''Authors'' []]
       noLocation"

text \<open>A database with the two tables \<open>Posts\<close> and \<open>posts\<close>.\<close>

definition caseClashDatabase :: database_definition where
  "caseClashDatabase =
     DatabaseDefinition (Identifier ''Shop'' noLocation)
       [tableNamed ''Posts'' [], tableNamed ''posts'' []]
       noLocation"

definition anyType :: ts_type where
  "anyType = TsKeywordTypeNode ''any''"

definition anyStatement :: "string \<Rightarrow> ts_stmt" where
  "anyStatement requestName = TsExpressionStatement (TsIdentifier requestName)"

section \<open>What the generated code is compared with\<close>

text \<open>
  The arrow function \<^verbatim>\<open>(arg: GetArgs): arg is T => { return typeof arg === 'object' && Reflect.has(arg, 'n') }\<close>.
\<close>

definition generatedPredicate :: "table_definition \<Rightarrow> ts_type \<Rightarrow> string \<Rightarrow> ts_expr" where
  "generatedPredicate def predicateType indexName =
     TsArrowFunction
       [TsParameterDeclaration ''arg'' False (createGetArgsTypeNode def)]
       (Some (TsTypePredicateNode ''arg'' predicateType))
       (TsBlock
          [TsReturnStatement
             (TsBinaryExpression
                (TsBinaryExpression (TsTypeOfExpression (TsIdentifier ''arg''))
                   EqualsEqualsEqualsToken (TsStringLiteral ''object''))
                AmpersandAmpersandToken
                (TsCallExpression
                   (TsPropertyAccessExpression (TsIdentifier ''Reflect'') ''has'')
                   [TsIdentifier ''arg'', TsStringLiteral indexName]))])"

text \<open>
  The request of the first index whose predicate holds, in the order of the list; without
  such an index, the request on the store when there is a key, and \<open>null\<close> otherwise.
\<close>

definition chosenRequest ::
  "(string \<Rightarrow> bool) \<Rightarrow> table_definition \<Rightarrow> table_index list \<Rightarrow> table_index list \<Rightarrow> sym" where
  "chosenRequest holds def indexes keys =
     (case find (\<lambda>i. holds (createPredicateNameForIndex def i)) indexes of
        Some i \<Rightarrow> SymIndexGet (name i) (SymArgProperty (name i))
      | None \<Rightarrow> if keys \<noteq> [] then SymStoreGet SymArg else SymNull)"

text \<open>The dispatch of the body generated for a table, with \<open>anyStatement\<close> for the handlers.\<close>

definition dispatchOf ::
  "(table_definition \<Rightarrow> error + table_index list) \<Rightarrow> (string \<Rightarrow> bool) \<Rightarrow> table_definition
     \<Rightarrow> dispatch option" where
  "dispatchOf getIndexesForTable holds def =
     (case createIndexAccessHandling getIndexesForTable anyStatement anyStatement def of
        Inl _ \<Rightarrow> None
      | Inr statements \<Rightarrow> runGetBody holds statements)"

section \<open>Stepping the cursor\<close>

lemma andThen_simps [simp]:
  "andThen OutOfFuel f = OutOfFuel"
  "andThen (Throw e) f = Throw e"
  "andThen (Return a i) f = f a i"
  by (simp_all add: andThen_def)

lemma check_single:
  "check tokens [ty] i =
     (if i < length tokens then Return (kind (tokens ! i) = ty) i else Throw TypeError)"
  by (auto simp add: currentToken_def)

lemma consume_single:
  "consume tokens [ty] i =
     (if i < length tokens then
        (if kind (tokens ! i) = ty then
           (if ty = ''EOF'' then Return (previousToken tokens i) i
            else Return (Some (tokens ! i)) (Suc i))
         else Return None i)
      else Throw TypeError)"
  by (auto simp add: currentToken_def advance_def isAtEnd_def previousToken_def)

lemma requireValue_simps [simp]:
  "requireValue tokens (Some v) msg i = Return v i"
  "requireValue tokens None msg i = Throw (reportError tokens msg i)"
  by (simp_all add: requireValue_def)

declare check.simps [simp del] consume.simps [simp del]

lemmas step = check_single consume_single currentToken_def reportError_def
  readListSeparator_def isStartOfDefinition_def mkToken_def createTextLocation_def

lemmas parse_defs = parse_def parseDefinition_def parseDatabaseDefinition_def
  parseTableDefinition_def parseField_def parseAnnotation_def parseAnnotationArgs_def
  parseTypeDefinition_def isAtEnd_def advance_def previousToken_def

lemma bindE_simps [simp]:
  "bindE (Inl e) f = Inl e"
  "bindE (Inr a) f = f a"
  by (simp_all add: bindE_def)

section \<open>The loop over annotation arguments\<close>

text \<open>
  One turn of the loop moves the cursor only over a comma or a string literal, and
  leaves the loop only at a closing parenthesis, a keyword that starts a definition or
  the end of the file. At any other token the turn changes nothing, so no amount of
  fuel is enough.
\<close>

lemma parseAnnotationArgs_loop_stuck:
  assumes "i < length tokens"
    and "kind (tokens ! i) \<notin> {''RightParenToken'', ''CommaToken'', ''StringLiteral'',
           ''DatabaseKeyword'', ''TableKeyword'', ''TypeKeyword'', ''EOF''}"
  shows "parseAnnotationArgs_loop n tokens args i = OutOfFuel"
  using assms
  by (induction n) (simp_all add: step)

text \<open>
  Claim C1. The claim is that \<open>parse\<close> returns or throws on every token array, each list
  loop either moving the cursor or reporting a runaway. On the tokens of
  \<^verbatim>\<open>database Blog { table Posts @item(Post) { } }\<close>, where the argument of the annotation
  is an identifier and not a string literal, \<open>parse\<close> runs out of fuel whatever the fuel:
  the loop of \<open>parseAnnotationArgs\<close> stays on the identifier for ever.
\<close>

theorem parse_never_returns_on_unquoted_annotation_argument:
  "parse n unquotedItemTokens = OutOfFuel"
proof -
  consider "n = 0" | "n = Suc 0" | "n = Suc (Suc 0)" | k where "n = Suc (Suc (Suc k))"
    by (metis not0_implies_Suc)
  then show ?thesis
  proof cases
    case 1
    then show ?thesis by (simp add: parse_def)
  next
    case 2
    then show ?thesis
      by (simp add: parse_defs unquotedItemTokens_def step)
  next
    case 3
    then show ?thesis
      by (simp add: parse_defs unquotedItemTokens_def step)
  next
    case 4
    then show ?thesis
      by (simp add: parse_defs unquotedItemTokens_def step parseAnnotationArgs_loop_stuck)
  qed
qed

section \<open>Annotations of a database\<close>

text \<open>
  Whatever follows, a token array that starts with the keyword \<open>database\<close> and an
  identifier is rejected unless its third token is the opening brace.
\<close>

lemma parseDatabaseDefinition_requires_brace:
  assumes "Suc (Suc 0) < length tokens"
    and "kind (tokens ! 0) = ''DatabaseKeyword''"
    and "kind (tokens ! Suc 0) = ''Identifier''"
    and "kind (tokens ! Suc (Suc 0)) \<noteq> ''LeftBraceToken''"
  shows "parse (Suc n) tokens =
           Throw (ParseError ''Expected opening curly brace'' (loc (tokens ! Suc (Suc 0))))"
proof -
  from assms(1) have "0 < length tokens" "Suc 0 < length tokens" by auto
  with assms show ?thesis
    by (simp add: parse_defs step)
qed

text \<open>
  Claim C2. The claim is that annotations are accepted between the name of a database and
  its opening brace, so that \<^verbatim>\<open>database Blog @version(1) {\<close> parses. On the tokens of
  \<^verbatim>\<open>database Blog @version(1) { }\<close> the parser throws at the \<open>@\<close>, for any fuel that lets
  it start: the opening brace is required right after the name.
\<close>

theorem parse_rejects_database_annotation:
  "parse (Suc n) versionedDatabaseTokens =
     Throw (ParseError ''Expected opening curly brace'' \<lparr>loc_start = 14, loc_end = 15\<rparr>)"
  by (simp add: parse_defs versionedDatabaseTokens_def step)

section \<open>Type arguments\<close>

lemma fuel_eight: "n + 8 = Suc (Suc (Suc (Suc (Suc (Suc (Suc (Suc n)))))))"
  by simp

lemma fuel_four: "n + 4 = Suc (Suc (Suc (Suc n)))"
  by simp

text \<open>
  What the loop of \<open>parseTypeReferenceNode\<close> does accept is a closing bracket written
  twice: the first \<open>>\<close> is consumed where the separator is expected, the second closes
  the list.
\<close>

lemma parseTypeNode_doubled_bracket:
  "parseTypeNode (n + 4) doubledBracketTokens 0 =
     Return (TypeReferenceNode (Identifier ''Map'' \<lparr>loc_start = 0, loc_end = 3\<rparr>)
               [KeywordFieldType ''StringKeyword'' \<lparr>loc_start = 4, loc_end = 10\<rparr>]
               \<lparr>loc_start = 0, loc_end = 12\<rparr>) 5"
  unfolding fuel_four
  by (simp add: parse_defs doubledBracketTokens_def step)

text \<open>
  Claim C6. The claim is that a type reference with arguments, such as \<open>Map<string>\<close> or
  \<open>Map<string, number>\<close> followed by a semicolon, is parsed into a reference node with
  its arguments. After an argument, the loop of \<open>parseTypeReferenceNode\<close> consumes a
  \<open>>\<close> where a comma is meant, and then asks for a second \<open>>\<close>: the field
  \<open>m: Map<string>;\<close> is rejected at the semicolon, and \<open>m: Map<string, number>;\<close> at the
  comma, for any fuel that reaches them.
\<close>

theorem parse_rejects_type_arguments:
  "parse (n + 8) mapStringFieldTokens =
     Throw (ParseError ''TypeNode expected but found: SemicolonToken''
              \<lparr>loc_start = 37, loc_end = 38\<rparr>)
   \<and> parse (n + 8) mapStringNumberFieldTokens =
     Throw (ParseError ''TypeNode expected but found: CommaToken''
              \<lparr>loc_start = 36, loc_end = 37\<rparr>)"
  unfolding fuel_eight
  by (simp add: parse_defs mapStringFieldTokens_def mapStringNumberFieldTokens_def step)

section \<open>The item name of a table\<close>

text \<open>
  Claim C7. With \<open>items\<close> the annotations of the table named \<open>item\<close>:
  more than one of them is an error; a single one with more than one argument is an
  error; a single one with one argument gives that argument; none, or a single one
  without argument, gives the capitalized name of the table.
\<close>

theorem getItemNameForTable_cases:
  fixes def :: table_definition
  defines "items \<equiv> getAnnotationsByName (tableAnnotations def) ''item''"
  shows "(length items > 1 \<longrightarrow>
            getItemNameForTable def =
              Inl (Error (''Table can only include one annotation for ''
                            @ [CHR 0x22] @ ''item'' @ [CHR 0x22])))
       \<and> (\<forall>a. items = [a] \<and> length (annotationArguments a) > 1 \<longrightarrow>
            getItemNameForTable def = Inl (Error ''Table can only include one name alias''))
       \<and> (\<forall>a s. items = [a] \<and> annotationArguments a = [s] \<longrightarrow>
            getItemNameForTable def = Inr (stringLiteralValue s))
       \<and> (items = [] \<or> (\<exists>a. items = [a] \<and> annotationArguments a = []) \<longrightarrow>
            getItemNameForTable def = Inr (capitalize (identifierValue (tableName def))))"
  unfolding items_def getItemNameForTable_def Let_def
  by (auto split: list.splits)

theorem getItemNameForTable_cases_witness:
  "getItemNameForTable (tableNamed ''posts'' [itemAnnotation [''Post''], itemAnnotation []])
     = Inl (Error (''Table can only include one annotation for ''
                     @ [CHR 0x22] @ ''item'' @ [CHR 0x22]))
   \<and> getItemNameForTable (tableNamed ''posts'' [itemAnnotation [''Post'', ''P'']])
     = Inl (Error ''Table can only include one name alias'')
   \<and> getItemNameForTable (tableNamed ''posts'' [itemAnnotation [''Post'']]) = Inr ''Post''
   \<and> getItemNameForTable (tableNamed ''posts'' [itemAnnotation []]) = Inr ''Posts''
   \<and> getItemNameForTable (tableNamed ''posts'' []) = Inr ''Posts''"
  using
    getItemNameForTable_cases [of "tableNamed ''posts'' [itemAnnotation [''Post''], itemAnnotation []]"]
    getItemNameForTable_cases [of "tableNamed ''posts'' [itemAnnotation [''Post'', ''P'']]"]
    getItemNameForTable_cases [of "tableNamed ''posts'' [itemAnnotation [''Post'']]"]
    getItemNameForTable_cases [of "tableNamed ''posts'' [itemAnnotation []]"]
    getItemNameForTable_cases [of "tableNamed ''posts'' []"]
  by (simp add: tableNamed_def itemAnnotation_def getAnnotationsByName_def toUpperCaseChar_def)

section \<open>The alternatives of the argument type of get\<close>

text \<open>
  Claim C3. The claim is that, for a key \<open>id: number\<close> and the indexes \<open>title: string\<close>
  and \<open>author: string\<close>, the type \<open>GetArgs\<close> is the union
  \<open>number | {id: number} | {title: string} | {author: string}\<close>. The union built by
  \<open>createGetArgsType\<close> has one alternative for each entry of the index list, so three
  here: \<open>number | {title: T} | {author: T}\<close> with \<open>T\<close> the type that \<open>typeForTypeNode\<close>
  gives to \<open>string\<close>. The alternative \<open>{id: number}\<close> is not built.
\<close>

theorem createGetArgsType_posts_has_three_alternatives:
  "createGetArgsType (\<lambda>_. Inr postsIndexes) tf (tableNamed ''Posts'' [itemAnnotation [''Post'']]) =
     Inr (TsTypeAliasDeclaration [ExportKeyword] ''PostsGetArgs'' (Some [])
            (TsUnionTypeNode
               [TsKeywordTypeNode ''number'',
                TsTypeLiteralNode [TsPropertySignature ''title'' False (tf stringType)],
                TsTypeLiteralNode [TsPropertySignature ''author'' False (tf stringType)]]))"
  by (simp add: createGetArgsType_def postsIndexes_def typeNodeForIndex_def createNumberType_def
      createGetArgsTypeName_def tableNamed_def toUpperCaseChar_def)

text \<open>
  Claim C5. The claim is that the alternative for the key is the type of the key field, so
  \<open>string\<close> for a key field of type \<open>string\<close>. For a table whose only index entry is the
  key \<open>email\<close> of type \<open>string\<close>, the union is \<open>number\<close> alone: the key case of
  \<open>typeNodeForIndex\<close> gives \<open>createNumberType()\<close> and does not read the type of the entry.
\<close>

theorem createGetArgsType_string_key_gives_number:
  "createGetArgsType (\<lambda>_. Inr usersIndexes) tf (tableNamed ''Users'' []) =
     Inr (TsTypeAliasDeclaration [ExportKeyword] ''UsersGetArgs'' (Some [])
            (TsUnionTypeNode [TsKeywordTypeNode ''number'']))"
  by (simp add: createGetArgsType_def usersIndexes_def typeNodeForIndex_def createNumberType_def
      createGetArgsTypeName_def tableNamed_def toUpperCaseChar_def)

text \<open>
  Claim C4, as stated: the alternative for the index entry named \<open>title_author\<close> would be
  the object type \<open>{title: string, author: string}\<close>. It is not: the alternative has a
  single property.
\<close>

theorem typeNodeForIndex_compound_counterexample:
  "typeNodeForIndex typeForTypeNode \<lparr>indexKind = Index, name = ''title_author'', type = stringType\<rparr>
     \<noteq> TsTypeLiteralNode
          [TsPropertySignature ''title'' False (TsKeywordTypeNode ''string''),
           TsPropertySignature ''author'' False (TsKeywordTypeNode ''string'')]"
  by (simp add: typeNodeForIndex_def)

text \<open>
  Claim C4, amended. For an entry of kind \<open>index\<close> at position \<open>k\<close> of the index list, the
  alternative at position \<open>k\<close> of the union is the object type with the single property
  named after the entry, typed by \<open>typeForTypeNode\<close> of the type recorded on the entry;
  the union has one alternative for each entry.
\<close>

theorem createGetArgsType_index_alternative:
  assumes "getIndexesForTable def = Inr indexes"
    and "k < length indexes"
    and "indexKind (indexes ! k) = Index"
  shows "\<exists>alternatives.
           createGetArgsType getIndexesForTable tf def =
             Inr (TsTypeAliasDeclaration [ExportKeyword] (createGetArgsTypeName def) (Some [])
                    (TsUnionTypeNode alternatives))
         \<and> length alternatives = length indexes
         \<and> alternatives ! k =
             TsTypeLiteralNode
               [TsPropertySignature (name (indexes ! k)) False (tf (type (indexes ! k)))]"
  using assms by (simp add: createGetArgsType_def typeNodeForIndex_def)

theorem createGetArgsType_index_alternative_witness:
  "createGetArgsType (\<lambda>_. Inr compoundIndexes) typeForTypeNode (tableNamed ''Posts'' []) =
     Inr (TsTypeAliasDeclaration [ExportKeyword] ''PostsGetArgs'' (Some [])
            (TsUnionTypeNode
               [TsKeywordTypeNode ''number'',
                TsTypeLiteralNode
                  [TsPropertySignature ''title_author'' False (TsKeywordTypeNode ''string'')]]))"
  using createGetArgsType_index_alternative [of "\<lambda>_. Inr compoundIndexes" "tableNamed ''Posts'' []" compoundIndexes 1 typeForTypeNode]
  by (simp add: createGetArgsType_def compoundIndexes_def typeNodeForIndex_def createNumberType_def
      createGetArgsTypeName_def tableNamed_def toUpperCaseChar_def stringType_def)

section \<open>The type of the client\<close>

lemma mapE_Inr:
  "mapE f xs = Inr ys \<Longrightarrow> length ys = length xs \<and> (\<forall>k<length xs. f (xs ! k) = Inr (ys ! k))"
proof (induction xs arbitrary: ys)
  case Nil
  then show ?case by simp
next
  case (Cons x xs)
  from Cons.prems obtain y zs where y: "f x = Inr y" and zs: "mapE f xs = Inr zs"
    and ys: "ys = y # zs"
    by (auto simp: bindE_def split: sum.splits)
  from Cons.IH [OF zs] have "length zs = length xs" and "\<forall>k<length xs. f (xs ! k) = Inr (zs ! k)"
    by simp_all
  with y ys show ?case by (auto simp: nth_Cons split: nat.splits)
qed

lemma mapE_total:
  "(\<forall>x\<in>set xs. \<exists>y. f x = Inr y) \<Longrightarrow> \<exists>ys. mapE f xs = Inr ys"
  by (induction xs) auto

text \<open>
  Claim C10, as stated: for each table the client type would hold exactly one property
  named by the name of the table in lower case. For the tables \<open>Posts\<close> and \<open>posts\<close> of
  one database the client type has two members, both named \<open>posts\<close>.
\<close>

theorem createClientTypeDeclaration_case_clash_counterexample:
  "map_sum id memberNames
     (createClientTypeDeclaration (\<lambda>_. ''ShopClient'') toLowerCaseAscii
        (\<lambda>_. Inr anyType) (\<lambda>_. Inr anyType) caseClashDatabase)
   = Inr [''posts'', ''posts'']"
  by (simp add: createClientTypeDeclaration_def caseClashDatabase_def tableNamed_def
      createGetMethodTypeNode_def getItemNameForTable_def getAnnotationsByName_def
      toLowerCaseAscii_def toLowerCaseChar_def)

text \<open>
  Claim C10, amended. \<open>createClientTypeDeclaration\<close> returns a declaration when the three
  method types can be built for every table; the declaration it returns is a type literal
  with one member for each table, in the order of the tables; the member at position \<open>k\<close>
  is named by \<open>toLowerCase\<close> of the name of the table at position \<open>k\<close>, and its type is
  the type literal of the three properties \<open>add\<close>, \<open>get\<close> and \<open>getAll\<close>. When no two
  tables have the same name in lower case, each table has exactly one member of its
  name in lower case. This holds for every function \<open>toLowerCase\<close>.
\<close>

theorem createClientTypeDeclaration_members:
  "((\<forall>t\<in>set (databaseBody def).
        (\<exists>a. addType t = Inr a) \<and> (\<exists>g. createGetMethodTypeNode t = Inr g)
        \<and> (\<exists>ga. getAllType t = Inr ga))
      \<longrightarrow> (\<exists>decl. createClientTypeDeclaration clientName lower addType getAllType def
                  = Inr decl))
   \<and> (\<forall>decl. createClientTypeDeclaration clientName lower addType getAllType def = Inr decl
        \<longrightarrow>
        (\<exists>members.
           decl = TsTypeAliasDeclaration [ExportKeyword] (clientName def) None
                    (TsTypeLiteralNode members)
           \<and> length members = length (databaseBody def)
           \<and> (\<forall>k<length members. \<exists>a g ga.
                 members ! k =
                   TsPropertySignature
                     (lower (identifierValue (tableName (databaseBody def ! k)))) False
                     (TsTypeLiteralNode
                        [TsPropertySignature ''add'' False a,
                         TsPropertySignature ''get'' False g,
                         TsPropertySignature ''getAll'' False ga]))
           \<and> (distinct (map (\<lambda>t. lower (identifierValue (tableName t))) (databaseBody def))
                \<longrightarrow> (\<forall>k<length (databaseBody def).
                       \<exists>!j. j < length members
                          \<and> propertyName (members ! j)
                              = lower (identifierValue (tableName (databaseBody def ! k)))))))"
proof -
  let ?name = "\<lambda>t. lower (identifierValue (tableName t))"
  let ?member = "\<lambda>next.
      bindE (addType next) (\<lambda>a.
      bindE (createGetMethodTypeNode next) (\<lambda>g.
      bindE (getAllType next) (\<lambda>ga.
        Inr (TsPropertySignature (?name next) False
               (TsTypeLiteralNode
                  [TsPropertySignature ''add'' False a,
                   TsPropertySignature ''get'' False g,
                   TsPropertySignature ''getAll'' False ga])))))"
  have unfold: "createClientTypeDeclaration clientName lower addType getAllType def =
      bindE (mapE ?member (databaseBody def)) (\<lambda>members.
        Inr (TsTypeAliasDeclaration [ExportKeyword] (clientName def) None
               (TsTypeLiteralNode members)))"
    by (simp add: createClientTypeDeclaration_def)
  have returns: "\<exists>decl. createClientTypeDeclaration clientName lower addType getAllType def
                   = Inr decl"
    if ok: "\<forall>t\<in>set (databaseBody def).
        (\<exists>a. addType t = Inr a) \<and> (\<exists>g. createGetMethodTypeNode t = Inr g)
        \<and> (\<exists>ga. getAllType t = Inr ga)"
  proof -
    have "\<forall>t\<in>set (databaseBody def). \<exists>m. ?member t = Inr m"
      using ok by auto
    then obtain members where "mapE ?member (databaseBody def) = Inr members"
      using mapE_total [of "databaseBody def" ?member] by blast
    then show ?thesis by (simp add: unfold)
  qed
  have shape: "\<exists>members.
           decl = TsTypeAliasDeclaration [ExportKeyword] (clientName def) None
                    (TsTypeLiteralNode members)
           \<and> length members = length (databaseBody def)
           \<and> (\<forall>k<length members. \<exists>a g ga.
                 members ! k =
                   TsPropertySignature (?name (databaseBody def ! k)) False
                     (TsTypeLiteralNode
                        [TsPropertySignature ''add'' False a,
                         TsPropertySignature ''get'' False g,
                         TsPropertySignature ''getAll'' False ga]))
           \<and> (distinct (map ?name (databaseBody def))
                \<longrightarrow> (\<forall>k<length (databaseBody def).
                       \<exists>!j. j < length members
                          \<and> propertyName (members ! j) = ?name (databaseBody def ! k)))"
    if r: "createClientTypeDeclaration clientName lower addType getAllType def = Inr decl"
    for decl
  proof -
    from r obtain members where m: "mapE ?member (databaseBody def) = Inr members"
      and d: "decl = TsTypeAliasDeclaration [ExportKeyword] (clientName def) None
                    (TsTypeLiteralNode members)"
      unfolding unfold by (auto simp: bindE_def split: sum.splits)
    from mapE_Inr [OF m] have len: "length members = length (databaseBody def)"
      and each: "\<forall>k<length (databaseBody def). ?member (databaseBody def ! k) = Inr (members ! k)"
      by simp_all
    have member: "\<exists>a g ga. members ! k =
                   TsPropertySignature (?name (databaseBody def ! k)) False
                     (TsTypeLiteralNode
                        [TsPropertySignature ''add'' False a,
                         TsPropertySignature ''get'' False g,
                         TsPropertySignature ''getAll'' False ga])"
      if "k < length members" for k
    proof -
      from that len each have "?member (databaseBody def ! k) = Inr (members ! k)" by simp
      then show ?thesis by (auto simp: bindE_def split: sum.splits) metis
    qed
    have named: "propertyName (members ! k) = ?name (databaseBody def ! k)"
      if "k < length members" for k
      using member [OF that] by auto
    have once: "\<exists>!j. j < length members
                   \<and> propertyName (members ! j) = ?name (databaseBody def ! k)"
      if dist: "distinct (map ?name (databaseBody def))" and k: "k < length (databaseBody def)"
      for k
    proof (rule ex1I [of _ k])
      show "k < length members \<and> propertyName (members ! k) = ?name (databaseBody def ! k)"
        using k len named by simp
    next
      fix j
      assume j: "j < length members \<and> propertyName (members ! j) = ?name (databaseBody def ! k)"
      then have "?name (databaseBody def ! j) = ?name (databaseBody def ! k)"
        using named [of j] by simp
      then show "j = k"
        using nth_eq_iff_index_eq [OF dist, of j k] j k len by auto
    qed
    show ?thesis
    proof (intro exI [of _ members] conjI)
      show "decl = TsTypeAliasDeclaration [ExportKeyword] (clientName def) None
                     (TsTypeLiteralNode members)"
        by (rule d)
      show "length members = length (databaseBody def)"
        by (rule len)
      show "\<forall>k<length members. \<exists>a g ga.
              members ! k =
                TsPropertySignature (?name (databaseBody def ! k)) False
                  (TsTypeLiteralNode
                     [TsPropertySignature ''add'' False a,
                      TsPropertySignature ''get'' False g,
                      TsPropertySignature ''getAll'' False ga])"
        using member by (intro allI impI)
      show "distinct (map ?name (databaseBody def))
              \<longrightarrow> (\<forall>k<length (databaseBody def).
                     \<exists>!j. j < length members
                        \<and> propertyName (members ! j) = ?name (databaseBody def ! k))"
        using once by (intro allI impI)
    qed
  qed
  show ?thesis
    by (intro conjI impI allI) (erule returns, erule shape)
qed

theorem createClientTypeDeclaration_members_witness:
  "createClientTypeDeclaration (\<lambda>_. ''BlogClient'') toLowerCaseAscii
     (\<lambda>_. Inr anyType) (\<lambda>_. Inr anyType) blogDatabase =
   Inr (TsTypeAliasDeclaration [ExportKeyword] ''BlogClient'' None
          (TsTypeLiteralNode
             [TsPropertySignature ''posts'' False
                (TsTypeLiteralNode
                   [TsPropertySignature ''add'' False anyType,
                    TsPropertySignature ''get'' False
                      (TsFunctionTypeNode
                         [TsParameterDeclaration ''arg'' False
                            (TsTypeReferenceNode ''PostsGetArgs'' [])]
                         (TsTypeReferenceNode ''Promise'' [TsTypeReferenceNode ''Post'' []])),
                    TsPropertySignature ''getAll'' False anyType]),
              TsPropertySignature ''authors'' False
                (TsTypeLiteralNode
                   [TsPropertySignature ''add'' False anyType,
                    TsPropertySignature ''get'' False
                      (TsFunctionTypeNode
                         [TsParameterDeclaration ''arg'' False
                            (TsTypeReferenceNode ''AuthorsGetArgs'' [])]
                         (TsTypeReferenceNode ''Promise'' [TsTypeReferenceNode ''Authors'' []])),
                    TsPropertySignature ''getAll'' False anyType])]))
   \<and> distinct (map (\<lambda>t. toLowerCaseAscii (identifierValue (tableName t)))
                 (databaseBody blogDatabase))"
  using createClientTypeDeclaration_members
    [of blogDatabase "\<lambda>_. Inr anyType" "\<lambda>_. Inr anyType" "\<lambda>_. ''BlogClient''" toLowerCaseAscii]
  by (simp add: createClientTypeDeclaration_def blogDatabase_def tableNamed_def
      itemAnnotation_def createGetMethodTypeNode_def getItemNameForTable_def
      getAnnotationsByName_def createGetArgsTypeNode_def createGetArgsTypeName_def
      toLowerCaseAscii_def toLowerCaseChar_def toUpperCaseChar_def)

section \<open>The index predicates\<close>

lemma callArrowFunction_generatedPredicate:
  "callArrowFunction (generatedPredicate def t n) v =
     (case v of
        JsObject properties \<Rightarrow> Normal (JsBoolean (n \<in> set (map fst properties)))
      | JsNull \<Rightarrow> Thrown ''TypeError''
      | _ \<Rightarrow> Normal (JsBoolean False))"
  by (cases v)
     (simp_all add: callArrowFunction_def generatedPredicate_def strictEquals_def reflectHas_def)

lemma createIndexPredicates_map:
  "getIndexesForTable def = Inr indexes \<Longrightarrow>
   createIndexPredicates getIndexesForTable tf def =
     Inr (map (\<lambda>next.
            createConstStatement (TsIdentifier (createPredicateNameForIndex def next)) None
              (generatedPredicate def (typeNodeForIndex tf next) (name next))) indexes)"
  by (simp add: createIndexPredicates_def generatedPredicate_def)

text \<open>
  Claim C9. For the index list of a table, \<open>createIndexPredicates\<close> declares one constant
  for each entry, the key included, named \<open>is\<close>, the capitalized table name, the
  capitalized index name, \<open>Index\<close>. The function it is bound to returns \<open>true\<close> exactly when
  \<open>typeof arg\<close> is \<open>'object'\<close> and \<open>arg\<close> has a property named after the index; its result
  on an object depends on the names of the properties only, not on their values; and for
  the key its declared type predicate is \<open>number\<close>, with the same body.
\<close>

theorem createIndexPredicates_check:
  assumes "getIndexesForTable def = Inr indexes"
  shows "\<exists>statements.
           createIndexPredicates getIndexesForTable tf def = Inr statements
         \<and> length statements = length indexes
         \<and> (\<forall>k<length indexes. \<exists>f.
               statements ! k =
                 createConstStatement
                   (TsIdentifier (''is'' @ capitalize (identifierValue (tableName def))
                                    @ capitalize (name (indexes ! k)) @ ''Index''))
                   None f
             \<and> (\<forall>v. callArrowFunction f v = Normal (JsBoolean True)
                      \<longleftrightarrow> typeof v = ''object'' \<and> hasProperty v (name (indexes ! k)))
             \<and> (\<forall>ps qs. map fst ps = map fst qs \<longrightarrow>
                      callArrowFunction f (JsObject ps) = callArrowFunction f (JsObject qs))
             \<and> (indexKind (indexes ! k) = Key \<longrightarrow>
                      typePredicateOf f = Some createNumberType))"
proof -
  let ?f = "\<lambda>next. generatedPredicate def (typeNodeForIndex tf next) (name next)"
  have run: "callArrowFunction (?f ix) v = Normal (JsBoolean True)
               \<longleftrightarrow> typeof v = ''object'' \<and> hasProperty v (name ix)" for ix v
    by (cases v) (simp_all add: callArrowFunction_generatedPredicate hasProperty_def)
  have keys: "callArrowFunction (?f ix) (JsObject ps) = callArrowFunction (?f ix) (JsObject qs)"
    if "map fst ps = map fst qs" for ix ps qs
    using that by (simp add: callArrowFunction_generatedPredicate)
  have declared: "typePredicateOf (?f ix) = Some createNumberType"
    if "indexKind ix = Key" for ix
    using that by (simp add: generatedPredicate_def typeNodeForIndex_def)
  let ?statements = "map (\<lambda>next.
      createConstStatement (TsIdentifier (createPredicateNameForIndex def next)) None (?f next))
    indexes"
  have built: "createIndexPredicates getIndexesForTable tf def = Inr ?statements"
    using createIndexPredicates_map [of getIndexesForTable "def" indexes tf] assms by simp
  have each: "\<exists>f.
        ?statements ! k =
          createConstStatement
            (TsIdentifier (''is'' @ capitalize (identifierValue (tableName def))
                             @ capitalize (name (indexes ! k)) @ ''Index''))
            None f
      \<and> (\<forall>v. callArrowFunction f v = Normal (JsBoolean True)
               \<longleftrightarrow> typeof v = ''object'' \<and> hasProperty v (name (indexes ! k)))
      \<and> (\<forall>ps qs. map fst ps = map fst qs \<longrightarrow>
               callArrowFunction f (JsObject ps) = callArrowFunction f (JsObject qs))
      \<and> (indexKind (indexes ! k) = Key \<longrightarrow>
               typePredicateOf f = Some createNumberType)"
    if "k < length indexes" for k
  proof (intro exI [of _ "?f (indexes ! k)"] conjI allI impI)
    show "?statements ! k =
          createConstStatement
            (TsIdentifier (''is'' @ capitalize (identifierValue (tableName def))
                             @ capitalize (name (indexes ! k)) @ ''Index''))
            None (?f (indexes ! k))"
      using that by (simp add: createPredicateNameForIndex_def)
  next
    fix v
    show "callArrowFunction (?f (indexes ! k)) v = Normal (JsBoolean True)
            \<longleftrightarrow> typeof v = ''object'' \<and> hasProperty v (name (indexes ! k))"
      by (rule run)
  next
    fix ps qs :: "(string \<times> js_value) list"
    assume "map fst ps = map fst qs"
    then show "callArrowFunction (?f (indexes ! k)) (JsObject ps)
                 = callArrowFunction (?f (indexes ! k)) (JsObject qs)"
      by (rule keys)
  next
    assume "indexKind (indexes ! k) = Key"
    then show "typePredicateOf (?f (indexes ! k)) = Some createNumberType"
      by (rule declared)
  qed
  from built each show ?thesis by (intro exI [of _ ?statements]) simp
qed

theorem createIndexPredicates_check_witness:
  "createIndexPredicates (\<lambda>_. Inr postsIndexes) typeForTypeNode (tableNamed ''Posts'' []) =
     Inr [createConstStatement (TsIdentifier ''isPostsIdIndex'') None
            (generatedPredicate (tableNamed ''Posts'' []) (TsKeywordTypeNode ''number'') ''id''),
          createConstStatement (TsIdentifier ''isPostsTitleIndex'') None
            (generatedPredicate (tableNamed ''Posts'' [])
               (TsTypeLiteralNode [TsPropertySignature ''title'' False (TsKeywordTypeNode ''string'')])
               ''title''),
          createConstStatement (TsIdentifier ''isPostsAuthorIndex'') None
            (generatedPredicate (tableNamed ''Posts'' [])
               (TsTypeLiteralNode [TsPropertySignature ''author'' False (TsKeywordTypeNode ''string'')])
               ''author'')]
   \<and> callArrowFunction
        (generatedPredicate (tableNamed ''Posts'' []) (TsKeywordTypeNode ''number'') ''id'')
        (JsObject [(''id'', JsNumber 4)]) = Normal (JsBoolean True)
   \<and> callArrowFunction
        (generatedPredicate (tableNamed ''Posts'' []) (TsKeywordTypeNode ''number'') ''id'')
        (JsNumber 4) = Normal (JsBoolean False)"
  using createIndexPredicates_check [of "\<lambda>_. Inr postsIndexes" "tableNamed ''Posts'' []" postsIndexes typeForTypeNode]
  by (simp add: createIndexPredicates_map postsIndexes_def createPredicateNameForIndex_def
      typeNodeForIndex_def createNumberType_def tableNamed_def toUpperCaseChar_def
      stringType_def callArrowFunction_generatedPredicate)

section \<open>The dispatch in the body of get\<close>

lemma predicateName_fresh:
  "createPredicateNameForIndex def i \<noteq> ''arg''"
  "createPredicateNameForIndex def i \<noteq> ''store''"
  "createPredicateNameForIndex def i \<noteq> ''getRequest''"
  "createPredicateNameForIndex def i \<noteq> ''index''"
  by (simp_all add: createPredicateNameForIndex_def)

lemma conditions_short:
  "createConditionsForIndexes def indexes keys = []
   \<or> (\<exists>s. createConditionsForIndexes def indexes keys = [s])"
  by (cases indexes) simp_all

lemma conditions_empty:
  "createConditionsForIndexes def indexes keys = [] \<longleftrightarrow> indexes = [] \<and> keys = []"
  by (cases indexes) simp_all

lemma set_getRequest:
  "variables st ''getRequest'' = Some SymNull \<Longrightarrow>
   st\<lparr>variables := (variables st)(''getRequest'' \<mapsto> SymNull)\<rparr> = st"
  by (simp add: fun_upd_idem)

lemma execList_single: "execList holds [s] st = exec holds s st"
  by (simp split: option.splits)

lemma if_fun_upd: "(\<lambda>x. if x = k then Some v else f x) = f(k \<mapsto> v)"
  by (rule ext) simp

lemma exec_conditions:
  assumes "variables st ''arg'' = Some SymArg"
    and "variables st ''store'' = Some SymStore"
    and "variables st ''getRequest'' = Some SymNull"
    and "\<forall>i. variables st (createPredicateNameForIndex def i) = None"
  shows "execList holds (createConditionsForIndexes def indexes keys) st =
           Some (st\<lparr>variables :=
                      (variables st)(''getRequest'' \<mapsto> chosenRequest holds def indexes keys)\<rparr>)"
  using assms
proof (induction indexes)
  case Nil
  from Nil.prems(3)
  have idem: "st\<lparr>variables := (variables st)(''getRequest'' \<mapsto> SymNull)\<rparr> = st"
    by (rule set_getRequest)
  show ?case
  proof (cases "keys = []")
    case True
    then have "chosenRequest holds def [] keys = SymNull"
      by (simp add: chosenRequest_def)
    moreover have "execList holds (createConditionsForIndexes def [] keys) st = Some st"
      using True by simp
    ultimately show ?thesis by (simp only: idem)
  next
    case False
    then have "chosenRequest holds def [] keys = SymStoreGet SymArg"
      by (simp add: chosenRequest_def)
    moreover have "execList holds (createConditionsForIndexes def [] keys) st =
        Some (st\<lparr>variables := (variables st)(''getRequest'' \<mapsto> SymStoreGet SymArg)\<rparr>)"
      using False Nil.prems by (simp add: createAssignment_def if_fun_upd)
    ultimately show ?thesis by (simp only:)
  qed
next
  case (Cons ix rest)
  let ?p = "createPredicateNameForIndex def ix"
  show ?case
  proof (cases "holds ?p")
    case True
    from True have "chosenRequest holds def (ix # rest) keys
        = SymIndexGet (name ix) (SymArgProperty (name ix))"
      by (simp add: chosenRequest_def)
    moreover from True Cons.prems
    have "execList holds (createConditionsForIndexes def (ix # rest) keys) st =
        Some (st\<lparr>variables :=
                   (variables st)(''getRequest'' \<mapsto>
                      SymIndexGet (name ix) (SymArgProperty (name ix)))\<rparr>)"
      by (simp add: symCond_def createConstStatement_def createAssignment_def)
         (rule run_state.equality; auto simp: fun_eq_iff)
    ultimately show ?thesis by (simp only:)
  next
    case False
    from conditions_short [of "def" rest keys] show ?thesis
    proof
      assume e: "createConditionsForIndexes def rest keys = []"
      then have "rest = []" "keys = []" by (simp_all add: conditions_empty)
      then have "chosenRequest holds def (ix # rest) keys = SymNull"
        using False by (simp add: chosenRequest_def)
      moreover have "execList holds (createConditionsForIndexes def (ix # rest) keys) st = Some st"
        using False Cons.prems e by (simp add: symCond_def)
      moreover from Cons.prems(3)
      have "st\<lparr>variables := (variables st)(''getRequest'' \<mapsto> SymNull)\<rparr> = st"
        by (rule set_getRequest)
      ultimately show ?thesis by (simp only:)
    next
      assume "\<exists>s. createConditionsForIndexes def rest keys = [s]"
      then obtain s where s: "createConditionsForIndexes def rest keys = [s]" ..
      from Cons.IH [OF Cons.prems] s
      have "exec holds s st =
          Some (st\<lparr>variables :=
                     (variables st)(''getRequest'' \<mapsto> chosenRequest holds def rest keys)\<rparr>)"
        by (simp only: execList_single)
      moreover from False have "chosenRequest holds def (ix # rest) keys
          = chosenRequest holds def rest keys"
        by (simp add: chosenRequest_def)
      moreover from False Cons.prems s
      have "execList holds (createConditionsForIndexes def (ix # rest) keys) st = exec holds s st"
        by (simp add: symCond_def execList_single del: execList.simps)
      ultimately show ?thesis by (simp only:)
    qed
  qed
qed

lemma filter_kinds:
  "filter (\<lambda>next. indexKind next \<noteq> Key) xs = filter (\<lambda>i. indexKind i = Index) xs"
  "filter (\<lambda>next. indexKind next \<noteq> Index) xs = filter (\<lambda>i. indexKind i = Key) xs"
  by (induction xs) (auto intro: index_kind.exhaust)

lemma chosenRequest_null:
  "symIsNull (chosenRequest holds def indexes keys)
     = Some (find (\<lambda>i. holds (createPredicateNameForIndex def i)) indexes = None \<and> keys = [])"
  by (simp add: chosenRequest_def split: option.splits)

text \<open>
  Claim C8. The body generated for a table tests the predicates of the entries of kind
  \<open>index\<close> in the order of the index list; the first that holds makes the request
  \<open>store.index(name).get(arg.name)\<close>. When none holds and the table has a key entry, the
  request is \<open>store.get(arg)\<close>, on \<open>arg\<close> as it is. In both cases control enters the branch
  of the handlers. When none holds and there is no key entry, \<open>reject\<close> is called with
  \<open>new Error('No available index for given query')\<close>.
\<close>

theorem createIndexAccessHandling_dispatch:
  assumes "getIndexesForTable def = Inr indexesAndKeys"
    and "getItemNameForTable def = Inr itemName"
  shows "\<exists>statements.
           createIndexAccessHandling getIndexesForTable onError onSuccess def = Inr statements
         \<and> runGetBody holds statements =
             Some (case find (\<lambda>i. holds (createPredicateNameForIndex def i))
                          (filter (\<lambda>i. indexKind i = Index) indexesAndKeys) of
                     Some i \<Rightarrow>
                       Proceed (SymIndexGet (name i) (SymArgProperty (name i)))
                         (TsBlock [onError ''getRequest'', onSuccess ''getRequest''])
                   | None \<Rightarrow>
                       if filter (\<lambda>i. indexKind i = Key) indexesAndKeys \<noteq> [] then
                         Proceed (SymStoreGet SymArg)
                           (TsBlock [onError ''getRequest'', onSuccess ''getRequest''])
                       else
                         Rejected (SymError (SymString ''No available index for given query'')))"
proof -
  let ?indexes = "filter (\<lambda>i. indexKind i = Index) indexesAndKeys"
  let ?keys = "filter (\<lambda>i. indexKind i = Key) indexesAndKeys"
  let ?letStatement = "createLetStatement (TsIdentifier ''getRequest'')
                    (Some (TsUnionTypeNode
                             [TsTypeReferenceNode ''IDBRequest'' [TsTypeReferenceNode itemName []],
                              TsLiteralTypeNull]))
                    TsNull"
  let ?test = "TsIfStatement
                 (TsBinaryExpression (TsIdentifier ''getRequest'') ExclamationEqualsToken TsNull)
                 (TsBlock [onError ''getRequest'', onSuccess ''getRequest''])
                 (Some (TsBlock
                    [TsExpressionStatement
                       (TsCallExpression (TsIdentifier ''reject'')
                          [TsNewExpression (TsIdentifier ''Error'')
                             [TsStringLiteral ''No available index for given query'']])]))"
  let ?statements = "?letStatement # createConditionsForIndexes def ?indexes ?keys @ [?test]"
  let ?st = "initialState\<lparr>variables := (variables initialState)(''getRequest'' \<mapsto> SymNull)\<rparr>"
  let ?request = "chosenRequest holds def ?indexes ?keys"
  have built: "createIndexAccessHandling getIndexesForTable onError onSuccess def = Inr ?statements"
    using assms by (simp add: createIndexAccessHandling_def filter_kinds)
  have declared: "exec holds ?letStatement initialState = Some ?st"
    by (simp add: createLetStatement_def)
  have conditions: "execList holds (createConditionsForIndexes def ?indexes ?keys) ?st =
      Some (?st\<lparr>variables := (variables ?st)(''getRequest'' \<mapsto> ?request)\<rparr>)"
    by (rule exec_conditions) (simp_all add: initialState_def predicateName_fresh)
  have before: "execList holds (butlast ?statements) initialState =
      Some (?st\<lparr>variables := (variables ?st)(''getRequest'' \<mapsto> ?request)\<rparr>)"
    using declared conditions by (simp add: butlast_append)
  have "runGetBody holds ?statements =
      (if find (\<lambda>i. holds (createPredicateNameForIndex def i)) ?indexes = None \<and> ?keys = []
       then Some (Rejected (SymError (SymString ''No available index for given query'')))
       else Some (Proceed ?request
                    (TsBlock [onError ''getRequest'', onSuccess ''getRequest''])))"
    unfolding runGetBody_def before
    by (simp add: symCond_def chosenRequest_null initialState_def)
  then have "runGetBody holds ?statements =
             Some (case find (\<lambda>i. holds (createPredicateNameForIndex def i)) ?indexes of
                     Some i \<Rightarrow>
                       Proceed (SymIndexGet (name i) (SymArgProperty (name i)))
                         (TsBlock [onError ''getRequest'', onSuccess ''getRequest''])
                   | None \<Rightarrow>
                       if ?keys \<noteq> [] then
                         Proceed (SymStoreGet SymArg)
                           (TsBlock [onError ''getRequest'', onSuccess ''getRequest''])
                       else
                         Rejected (SymError (SymString ''No available index for given query'')))"
    by (simp add: chosenRequest_def split: option.splits)
  with built show ?thesis by blast
qed

theorem createIndexAccessHandling_dispatch_witness:
  "dispatchOf (\<lambda>_. Inr postsIndexes) (\<lambda>p. p = ''isPostsAuthorIndex'')
       (tableNamed ''Posts'' [itemAnnotation [''Post'']])
     = Some (Proceed (SymIndexGet ''author'' (SymArgProperty ''author''))
               (TsBlock [anyStatement ''getRequest'', anyStatement ''getRequest'']))
   \<and> dispatchOf (\<lambda>_. Inr postsIndexes) (\<lambda>_. True)
       (tableNamed ''Posts'' [itemAnnotation [''Post'']])
     = Some (Proceed (SymIndexGet ''title'' (SymArgProperty ''title''))
               (TsBlock [anyStatement ''getRequest'', anyStatement ''getRequest'']))
   \<and> dispatchOf (\<lambda>_. Inr postsIndexes) (\<lambda>_. False)
       (tableNamed ''Posts'' [itemAnnotation [''Post'']])
     = Some (Proceed (SymStoreGet SymArg)
               (TsBlock [anyStatement ''getRequest'', anyStatement ''getRequest'']))
   \<and> dispatchOf (\<lambda>_. Inr keylessIndexes) (\<lambda>_. False)
       (tableNamed ''Posts'' [itemAnnotation [''Post'']])
     = Some (Rejected (SymError (SymString ''No available index for given query'')))"
  using
    createIndexAccessHandling_dispatch [of "\<lambda>_. Inr postsIndexes"
      "tableNamed ''Posts'' [itemAnnotation [''Post'']]" postsIndexes "''Post''"
      anyStatement anyStatement "\<lambda>p. p = ''isPostsAuthorIndex''"]
    createIndexAccessHandling_dispatch [of "\<lambda>_. Inr postsIndexes"
      "tableNamed ''Posts'' [itemAnnotation [''Post'']]" postsIndexes "''Post''"
      anyStatement anyStatement "\<lambda>_. True"]
    createIndexAccessHandling_dispatch [of "\<lambda>_. Inr postsIndexes"
      "tableNamed ''Posts'' [itemAnnotation [''Post'']]" postsIndexes "''Post''"
      anyStatement anyStatement "\<lambda>_. False"]
    createIndexAccessHandling_dispatch [of "\<lambda>_. Inr keylessIndexes"
      "tableNamed ''Posts'' [itemAnnotation [''Post'']]" keylessIndexes "''Post''"
      anyStatement anyStatement "\<lambda>_. False"]
  by (auto simp add: dispatchOf_def postsIndexes_def keylessIndexes_def
      createPredicateNameForIndex_def tableNamed_def itemAnnotation_def
      getItemNameForTable_def getAnnotationsByName_def toUpperCaseChar_def)

end
